theory Spec2Isabelle
  imports Main "HOL-Library.AList"
begin

text \<open>
  The request listener of \<^verbatim>\<open>class Api\<close> (\<^verbatim>\<open>src/core/api.ts\<close>) and the error classes, as
  functions on an explicit connection state.

  \<^item> A handler is the function the user registered. It is modelled by what it returns or throws
    for a given context; an SSE handler by the calls it makes to \<^verbatim>\<open>emit\<close> and \<^verbatim>\<open>onCleanup\<close>.
    Only the dispatcher writes to the response.
  \<^item> The transport delivers the request body as a list of chunks, and reports \<^verbatim>\<open>close\<close> as events
    of the SSE timeline. \<^verbatim>\<open>listen\<close> is not modelled.
  \<^item> \<^verbatim>\<open>runCleanup\<close> is one step: no other event happens between two of its callbacks.
  \<^item> \<^verbatim>\<open>maxRequestSize\<close> is a number of bytes, a natural number.
\<close>

section \<open>Wire data, thrown values and the error classes\<close>

text \<open>
  A \<^verbatim>\<open>Buffer\<close> and everything that travels on the wire is a list of bytes; a \<^typ>\<open>char\<close>
  is one byte, so a buffer is a \<^typ>\<open>string\<close> and \<^const>\<open>length\<close> is its byte count. The text
  that \<^verbatim>\<open>chunk.toString("utf8")\<close> produces is a list of Unicode code points.
\<close>

type_synonym buffer = string
type_synonym js_text = "nat list"

text \<open>The template \<^verbatim>\<open>`"${code}"`\<close>: the code between two double quotes.\<close>

definition quoted :: "string \<Rightarrow> string" where
  "quoted code = [CHR 0x22] @ code @ [CHR 0x22]"

text \<open>
  \<^verbatim>\<open>class HttpError\<close>: the constructor stores the status and the quoted code; both fields are
  read-only afterwards.
\<close>

record http_error =
  statusCode :: nat
  body :: string

definition HttpError_new :: "nat \<Rightarrow> string \<Rightarrow> http_error" where
  "HttpError_new sc code = \<lparr>statusCode = sc, body = quoted code\<rparr>"

definition NotFoundError :: http_error where
  "NotFoundError = HttpError_new 404 ''NOT_FOUND''"

definition MethodNotAllowedError :: http_error where
  "MethodNotAllowedError = HttpError_new 405 ''METHOD_NOT_ALLOWED''"

definition BadRequestError :: http_error where
  "BadRequestError = HttpError_new 400 ''BAD_REQUEST''"

definition UnauthorizedError :: http_error where
  "UnauthorizedError = HttpError_new 401 ''UNAUTHORIZED''"

definition ForbiddenError :: http_error where
  "ForbiddenError = HttpError_new 403 ''FORBIDDEN''"

definition InternalServerError :: http_error where
  "InternalServerError = HttpError_new 500 ''INTERNAL_ERROR''"

definition NotImplementedError :: http_error where
  "NotImplementedError = HttpError_new 501 ''NOT_IMPLEMENTED''"

text \<open>
  What a \<^verbatim>\<open>catch (err)\<close> can receive, as \<^verbatim>\<open>handleError\<close> tells the values apart: an instance
  of \<^verbatim>\<open>HttpError\<close>, a \<^verbatim>\<open>ValidationError\<close> of the schema package with its \<^verbatim>\<open>code\<close>, or any
  other value (the string stands for its message, stack and whatever else it carries).
\<close>

datatype thrown =
    HttpError http_error
  | ValidationError string
  | OtherError string

section \<open>Requests, the connection state and the platform\<close>

text \<open>
  An incoming request: \<^verbatim>\<open>req.method\<close>, \<^verbatim>\<open>req.url\<close> (possibly undefined), the chunks the
  transport delivers in order, and the error with which the stream rejects after the last chunk,
  if it does.
\<close>

record request =
  req_method :: string
  req_url :: "string option"
  chunks :: "buffer list"
  streamError :: "thrown option"

text \<open>
  A cleanup function registered with \<^verbatim>\<open>onCleanup\<close>: an identity and what calling it throws
  (\<^const>\<open>None\<close> when it completes).
\<close>

datatype callback = Callback (cb_id: nat) (cb_throws: "thrown option")

datatype route_kind = KRpc | KSse | KBlob | KUpload

text \<open>
  Handlers are pure functions of their context in this model, so what the dispatcher does around
  them is recorded: every \<^verbatim>\<open>routes.get\<close> and every handler call, with the \<^verbatim>\<open>req.body\<close> the
  handler was given.
\<close>

datatype event = Lookup string | Invoke route_kind "js_text option"

text \<open>
  The state of one connection: the response (\<^verbatim>\<open>res.statusCode\<close>, the headers set, the bytes
  written, whether \<^verbatim>\<open>end\<close> was called), the chunks of the request not yet read, the trace, and the
  variables of the SSE closure (\<^verbatim>\<open>closed\<close>, \<^verbatim>\<open>cleanups\<close>) with the list of cleanup calls made.
\<close>

record state =
  res_statusCode :: nat
  res_headers :: "(string \<times> string) list"
  res_body :: string
  res_ended :: bool
  req_unread :: "buffer list"
  trace :: "event list"
  closed :: bool
  cleanups :: "callback list"
  ran :: "callback list"

definition initial :: "request \<Rightarrow> state" where
  "initial req = \<lparr>res_statusCode = 200, res_headers = [], res_body = [], res_ended = False,
     req_unread = chunks req, trace = [], closed = False, cleanups = [], ran = []\<rparr>"

text \<open>
  The two platform functions the dispatcher calls on data: \<^verbatim>\<open>Buffer.toString("utf8")\<close> and
  \<^verbatim>\<open>JSON.stringify\<close>, which throws on some values and returns \<^verbatim>\<open>undefined\<close> (\<^const>\<open>None\<close>) on
  others. Both are parameters; \<open>'v\<close> is the type of JavaScript values.
\<close>

record 'v platform =
  toString_utf8 :: "buffer \<Rightarrow> js_text"
  JSON_stringify :: "'v \<Rightarrow> thrown + string option"

subsection \<open>UTF-8 decoding on the platform\<close>

text \<open>
  A model of \<^verbatim>\<open>Buffer.toString("utf8")\<close>, which is not code of this repository: the decoder of
  the WHATWG Encoding standard, one byte at a time, with U+FFFD for every ill-formed sequence
  and for a sequence that the end of the buffer cuts short. The state is the code point under
  construction, the number of continuation bytes still needed and the range allowed for the
  next byte.
\<close>

datatype utf8_state = Utf8 (u_cp: nat) (u_needed: nat) (u_lower: nat) (u_upper: nat)

definition utf8_idle :: utf8_state where
  "utf8_idle = Utf8 0 0 0x80 0xBF"

definition utf8_lead :: "nat \<Rightarrow> js_text \<times> utf8_state" where
  "utf8_lead b =
     (if b \<le> 0x7F then ([b], utf8_idle)
      else if 0xC2 \<le> b \<and> b \<le> 0xDF then ([], Utf8 (b mod 32) 1 0x80 0xBF)
      else if 0xE0 \<le> b \<and> b \<le> 0xEF then
        ([], Utf8 (b mod 16) 2 (if b = 0xE0 then 0xA0 else 0x80) (if b = 0xED then 0x9F else 0xBF))
      else if 0xF0 \<le> b \<and> b \<le> 0xF4 then
        ([], Utf8 (b mod 8) 3 (if b = 0xF0 then 0x90 else 0x80) (if b = 0xF4 then 0x8F else 0xBF))
      else ([0xFFFD], utf8_idle))"

definition utf8_step :: "utf8_state \<Rightarrow> nat \<Rightarrow> js_text \<times> utf8_state" where
  "utf8_step st b =
     (if u_needed st = 0 then utf8_lead b
      else if b < u_lower st \<or> u_upper st < b then
        (case utf8_lead b of (out, st') \<Rightarrow> (0xFFFD # out, st'))
      else
        (let c = u_cp st * 64 + b mod 64
         in if u_needed st = 1 then ([c], utf8_idle)
            else ([], Utf8 c (u_needed st - 1) 0x80 0xBF)))"

fun utf8_from :: "utf8_state \<Rightarrow> buffer \<Rightarrow> js_text" where
  "utf8_from st [] = (if u_needed st = 0 then [] else [0xFFFD])"
| "utf8_from st (b # bs) = (case utf8_step st (of_char b) of (out, st') \<Rightarrow> out @ utf8_from st' bs)"

definition utf8_decode :: "buffer \<Rightarrow> js_text" where
  "utf8_decode = utf8_from utf8_idle"

subsection \<open>The response object\<close>

definition setHeader :: "string \<Rightarrow> string \<Rightarrow> state \<Rightarrow> state" where
  "setHeader name v s = s\<lparr>res_headers := AList.update name v (res_headers s)\<rparr>"

definition getHeader :: "string \<Rightarrow> state \<Rightarrow> string option" where
  "getHeader name s = map_of (res_headers s) name"

text \<open>Bytes written after \<^verbatim>\<open>end\<close> are not sent; a second \<^verbatim>\<open>end\<close> does nothing.\<close>

definition res_write :: "string \<Rightarrow> state \<Rightarrow> state" where
  "res_write data s = (if res_ended s then s else s\<lparr>res_body := res_body s @ data\<rparr>)"

definition res_end :: "string option \<Rightarrow> state \<Rightarrow> state" where
  "res_end data s =
     (if res_ended s then s
      else (case data of None \<Rightarrow> s | Some d \<Rightarrow> s\<lparr>res_body := res_body s @ d\<rparr>)\<lparr>res_ended := True\<rparr>)"

section \<open>Routes and the Api object\<close>

text \<open>
  The context a handler receives: \<^verbatim>\<open>req.body\<close> (absent for an upload), the request stream as it
  stands when the handler is called, and the application context spread into it.
\<close>

record 'a request_context =
  req_body :: "js_text option"
  req_stream :: "buffer list"
  app :: 'a

text \<open>
  What happens during an SSE session, in the order it happens: the calls the handler (or the
  timers it started) makes to \<^verbatim>\<open>emit\<close> and \<^verbatim>\<open>onCleanup\<close>, the handler's promise settling, and the
  \<^verbatim>\<open>close\<close> events of the request and of the response.
\<close>

datatype 'v sse_event =
    Emit string 'v
  | OnCleanup callback
  | ReqClose
  | ResClose
  | HandlerReturn
  | HandlerThrow thrown

datatype blob_data = Buffer buffer | Readable "buffer list"

text \<open>
  \<^verbatim>\<open>type Route\<close>: the kind with its handler. An rpc handler returns a value or \<^verbatim>\<open>undefined\<close>
  (\<^const>\<open>None\<close>) or throws; an upload handler's value is ignored.
\<close>

datatype ('a, 'v) route =
    Rpc "'a request_context \<Rightarrow> thrown + 'v option"
  | Sse "'a request_context \<Rightarrow> 'v sse_event list"
  | Blob "'a request_context \<Rightarrow> thrown + blob_data"
  | Upload "'a request_context \<Rightarrow> thrown option"

fun kind :: "('a, 'v) route \<Rightarrow> route_kind" where
  "kind (Rpc h) = KRpc"
| "kind (Sse h) = KSse"
| "kind (Blob h) = KBlob"
| "kind (Upload h) = KUpload"

record cors_options =
  origin :: string

record options =
  maxRequestSize :: "nat option"
  cors :: "cors_options option"

record ('a, 'v) api =
  routes :: "string \<rightharpoonup> ('a, 'v) route"
  ctx :: 'a
  api_cors :: "cors_options option"
  api_options :: "options option"

definition Api_new :: "'a \<Rightarrow> options option \<Rightarrow> ('a, 'v) api" where
  "Api_new c opts = \<lparr>routes = Map.empty, ctx = c,
     api_cors = (case opts of None \<Rightarrow> None | Some opt \<Rightarrow> cors opt), api_options = opts\<rparr>"

definition rpc :: "string \<Rightarrow> ('a request_context \<Rightarrow> thrown + 'v option) \<Rightarrow> ('a, 'v) api \<Rightarrow> ('a, 'v) api" where
  "rpc path cb a = a\<lparr>routes := (routes a)(path \<mapsto> Rpc cb)\<rparr>"

definition sse :: "string \<Rightarrow> ('a request_context \<Rightarrow> 'v sse_event list) \<Rightarrow> ('a, 'v) api \<Rightarrow> ('a, 'v) api" where
  "sse path cb a = a\<lparr>routes := (routes a)(path \<mapsto> Sse cb)\<rparr>"

definition blob :: "string \<Rightarrow> ('a request_context \<Rightarrow> thrown + blob_data) \<Rightarrow> ('a, 'v) api \<Rightarrow> ('a, 'v) api" where
  "blob path cb a = a\<lparr>routes := (routes a)(path \<mapsto> Blob cb)\<rparr>"

definition upload :: "string \<Rightarrow> ('a request_context \<Rightarrow> thrown option) \<Rightarrow> ('a, 'v) api \<Rightarrow> ('a, 'v) api" where
  "upload path cb a = a\<lparr>routes := (routes a)(path \<mapsto> Upload cb)\<rparr>"

section \<open>The dispatcher\<close>

subsection \<open>handleError\<close>

text \<open>
  \<^verbatim>\<open>res.end\<close> writes the head of the response first when no byte has been written yet, and
  writing the head throws for a status outside 100..999. The statuses the dispatcher sets itself
  are in range; \<^verbatim>\<open>handleError\<close> sets the one carried by the \<^verbatim>\<open>HttpError\<close> it caught. Where
  \<^verbatim>\<open>res.end\<close> throws, the error leaves the \<^verbatim>\<open>catch\<close> and the listener, and the response stays as it
  is, with the status assigned and not ended.
\<close>

definition end_throws :: "state \<Rightarrow> bool" where
  "end_throws s =
     (\<not> res_ended s \<and> res_body s = [] \<and> (res_statusCode s < 100 \<or> 999 < res_statusCode s))"

fun handleError :: "thrown \<Rightarrow> state \<Rightarrow> state" where
  "handleError (HttpError err) s =
     (let s1 = s\<lparr>res_statusCode := statusCode err\<rparr>
      in if end_throws s1 then s1 else res_end (Some (body err)) s1)"
| "handleError (ValidationError c) s = res_end (Some (quoted c)) (s\<lparr>res_statusCode := 400\<rparr>)"
| "handleError (OtherError d) s = res_end (Some (quoted ''INTERNAL_ERROR'')) (s\<lparr>res_statusCode := 500\<rparr>)"

text \<open>
  The mapping in the words of the specification: the status and the body that a thrown value
  is mapped to, the response that consists of exactly these, and the values that can be mapped
  (an \<^verbatim>\<open>HttpError\<close> needs a status the platform accepts).
\<close>

fun spec_status :: "thrown \<Rightarrow> nat" where
  "spec_status (HttpError err) = statusCode err"
| "spec_status (ValidationError c) = 400"
| "spec_status (OtherError d) = 500"

fun spec_body :: "thrown \<Rightarrow> string" where
  "spec_body (HttpError err) = body err"
| "spec_body (ValidationError c) = quoted c"
| "spec_body (OtherError d) = quoted ''INTERNAL_ERROR''"

definition answered :: "thrown \<Rightarrow> state \<Rightarrow> bool" where
  "answered err s =
     (res_statusCode s = spec_status err \<and> res_body s = spec_body err \<and> res_ended s)"

fun mappable :: "thrown \<Rightarrow> bool" where
  "mappable (HttpError err) = (100 \<le> statusCode err \<and> statusCode err \<le> 999)"
| "mappable (ValidationError c) = True"
| "mappable (OtherError d) = True"

subsection \<open>Reading the body\<close>

text \<open>\<^verbatim>\<open>options?.maxRequestSize ?? 1024 * 1024\<close>\<close>

definition maxSize :: "options option \<Rightarrow> nat" where
  "maxSize opts =
     (case opts of None \<Rightarrow> 1024 * 1024
      | Some opt \<Rightarrow> (case maxRequestSize opt of None \<Rightarrow> 1024 * 1024 | Some m \<Rightarrow> m))"

text \<open>
  The \<^verbatim>\<open>for await\<close> loop over the request, with its two variables \<^verbatim>\<open>body\<close> and \<^verbatim>\<open>size\<close>
  as arguments. It returns the body, or \<^const>\<open>None\<close> where the loop answers 413 and returns,
  together with the chunks it has not taken from the stream.
\<close>

fun readBody :: "(buffer \<Rightarrow> js_text) \<Rightarrow> nat \<Rightarrow> buffer list \<Rightarrow> js_text \<Rightarrow> nat \<Rightarrow> js_text option \<times> buffer list" where
  "readBody dec mx [] body0 size0 = (Some body0, [])"
| "readBody dec mx (chunk # rest) body0 size0 =
     (let size1 = size0 + length chunk
      in if size1 > mx then (None, rest)
         else readBody dec mx rest (body0 @ dec chunk) size1)"

subsection \<open>The SSE session\<close>

definition call_cleanup :: "callback \<Rightarrow> state \<Rightarrow> thrown option \<times> state" where
  "call_cleanup fn s = (cb_throws fn, s\<lparr>ran := ran s @ [fn]\<rparr>)"

text \<open>The loop of \<^verbatim>\<open>runCleanup\<close>: \<^verbatim>\<open>try { await fn() } catch {}\<close> drops what the call throws.\<close>

fun run_all :: "callback list \<Rightarrow> state \<Rightarrow> state" where
  "run_all [] s = s"
| "run_all (fn # fns) s = (case call_cleanup fn s of (_, s') \<Rightarrow> run_all fns s')"

definition runCleanup :: "state \<Rightarrow> state" where
  "runCleanup s = (if closed s then s else run_all (cleanups s) (s\<lparr>closed := True\<rparr>))"

text \<open>
  \<^verbatim>\<open>emit\<close> returns what it throws, if anything: the first line is written before
  \<^verbatim>\<open>JSON.stringify\<close> is evaluated for the second. An \<^verbatim>\<open>undefined\<close> in a template reads
  \<^verbatim>\<open>undefined\<close>. Event names are strings, so \<^verbatim>\<open>String(event)\<close> is the name.
\<close>

definition emit :: "'v platform \<Rightarrow> string \<Rightarrow> 'v \<Rightarrow> state \<Rightarrow> thrown option \<times> state" where
  "emit pf ev data s =
     (if \<not> closed s then
        (let s1 = res_write (''event: '' @ ev @ [CHR 0x0A]) s
         in case JSON_stringify pf data of
              Inl err \<Rightarrow> (Some err, s1)
            | Inr j \<Rightarrow> (None, res_write (''data: '' @ (case j of None \<Rightarrow> ''undefined'' | Some t \<Rightarrow> t)
                                       @ [CHR 0x0A, CHR 0x0A]) s1))
      else (None, s))"

definition onCleanup :: "callback \<Rightarrow> state \<Rightarrow> state" where
  "onCleanup fn s = s\<lparr>cleanups := cleanups s @ [fn]\<rparr>"

text \<open>
  One event of the session. The two \<^verbatim>\<open>close\<close> listeners are \<^verbatim>\<open>runCleanup\<close>; after
  \<^verbatim>\<open>await route.handler(sseCtx)\<close> the dispatcher returns, and a rejection goes to the
  \<^verbatim>\<open>catch\<close>.
\<close>

fun sse_step :: "'v platform \<Rightarrow> 'v sse_event \<Rightarrow> state \<Rightarrow> state" where
  "sse_step pf (Emit ev data) s = snd (emit pf ev data s)"
| "sse_step pf (OnCleanup fn) s = onCleanup fn s"
| "sse_step pf ReqClose s = runCleanup s"
| "sse_step pf ResClose s = runCleanup s"
| "sse_step pf HandlerReturn s = s"
| "sse_step pf (HandlerThrow err) s = handleError err s"

fun sse_run :: "'v platform \<Rightarrow> 'v sse_event list \<Rightarrow> state \<Rightarrow> state" where
  "sse_run pf [] s = s"
| "sse_run pf (e # es) s = sse_run pf es (sse_step pf e s)"

text \<open>
  Two readings of a timeline used to state properties: its \<^verbatim>\<open>close\<close> events, and the cleanup
  functions it registers, in order.
\<close>

fun is_close :: "'v sse_event \<Rightarrow> bool" where
  "is_close ReqClose = True"
| "is_close ResClose = True"
| "is_close e = False"

fun registered :: "'v sse_event list \<Rightarrow> callback list" where
  "registered [] = []"
| "registered (OnCleanup fn # es) = fn # registered es"
| "registered (e # es) = registered es"

fun is_emit :: "'v sse_event \<Rightarrow> bool" where
  "is_emit (Emit ev d) = True"
| "is_emit e = False"

fun is_throw :: "'v sse_event \<Rightarrow> bool" where
  "is_throw (HandlerThrow err) = True"
| "is_throw e = False"

subsection \<open>The request listener\<close>

definition logged :: "event \<Rightarrow> state \<Rightarrow> state" where
  "logged e s = s\<lparr>trace := trace s @ [e]\<rparr>"

definition serve_upload :: "('a request_context \<Rightarrow> thrown option) \<Rightarrow> 'a \<Rightarrow> request \<Rightarrow> state \<Rightarrow> thrown option \<times> state" where
  "serve_upload handler c req s =
     (if req_method req \<noteq> ''POST'' then
        (None, res_end (Some (quoted ''METHOD_NOT_ALLOWED'')) (s\<lparr>res_statusCode := 405\<rparr>))
      else
        (let s1 = logged (Invoke KUpload None) s
         in case handler \<lparr>req_body = None, req_stream = req_unread s, app = c\<rparr> of
              Some err \<Rightarrow> (Some err, s1)
            | None \<Rightarrow> (None, res_end (Some (quoted ''OK'')) (s1\<lparr>res_statusCode := 200\<rparr>))))"

definition serve_rpc :: "'v platform \<Rightarrow> ('a request_context \<Rightarrow> thrown + 'v option) \<Rightarrow> 'a request_context \<Rightarrow> request \<Rightarrow> state
    \<Rightarrow> thrown option \<times> state" where
  "serve_rpc pf handler cx req s =
     (if req_method req \<noteq> ''POST'' then
        (None, res_end (Some (quoted ''METHOD_NOT_ALLOWED'')) (s\<lparr>res_statusCode := 405\<rparr>))
      else
        (let s1 = logged (Invoke KRpc (req_body cx)) s
         in case handler cx of
              Inl err \<Rightarrow> (Some err, s1)
            | Inr None \<Rightarrow> (None, res_end (Some '''') s1)
            | Inr (Some result) \<Rightarrow>
                (let s2 = setHeader ''content-type'' ''application/json'' s1
                 in case JSON_stringify pf result of
                      Inl err \<Rightarrow> (Some err, s2)
                    | Inr j \<Rightarrow> (None, res_end j s2))))"

definition serve_sse :: "'v platform \<Rightarrow> ('a request_context \<Rightarrow> 'v sse_event list) \<Rightarrow> 'a request_context \<Rightarrow> request \<Rightarrow> state
    \<Rightarrow> thrown option \<times> state" where
  "serve_sse pf handler cx req s =
     (if req_method req \<noteq> ''GET'' then
        (None, res_end (Some (quoted ''METHOD_NOT_ALLOWED'')) (s\<lparr>res_statusCode := 405\<rparr>))
      else
        (let s1 = setHeader ''connection'' ''keep-alive''
                    (setHeader ''cache-control'' ''no-cache''
                      (setHeader ''content-type'' ''text/event-stream'' s));
             s2 = s1\<lparr>cleanups := [], closed := False\<rparr>;
             s3 = logged (Invoke KSse (req_body cx)) s2
         in (None, sse_run pf (handler cx) s3)))"

text \<open>\<^verbatim>\<open>data.pipe(res)\<close> writes the chunks of the stream in order and ends the response.\<close>

fun pipe :: "buffer list \<Rightarrow> state \<Rightarrow> state" where
  "pipe [] s = res_end None s"
| "pipe (c # cs) s = pipe cs (res_write c s)"

definition serve_blob :: "('a request_context \<Rightarrow> thrown + blob_data) \<Rightarrow> 'a request_context \<Rightarrow> request \<Rightarrow> state
    \<Rightarrow> thrown option \<times> state" where
  "serve_blob handler cx req s =
     (if req_method req \<noteq> ''GET'' then
        (None, res_end (Some (quoted ''METHOD_NOT_ALLOWED'')) (s\<lparr>res_statusCode := 405\<rparr>))
      else
        (let s1 = logged (Invoke KBlob (req_body cx)) s
         in case handler cx of
              Inl err \<Rightarrow> (Some err, s1)
            | Inr (Buffer data) \<Rightarrow> (None, res_end (Some data) s1)
            | Inr (Readable data) \<Rightarrow> (None, pipe data s1)))"

text \<open>\<^verbatim>\<open>req.url ?? ""\<close>\<close>

definition request_path :: "request \<Rightarrow> string" where
  "request_path req = (case req_url req of None \<Rightarrow> '''' | Some u \<Rightarrow> u)"

text \<open>\<^verbatim>\<open>if (this.cors) { ... }\<close>: the three headers, set on every response.\<close>

definition cors_headers :: "cors_options option \<Rightarrow> state \<Rightarrow> state" where
  "cors_headers co s =
     (case co of
        None \<Rightarrow> s
      | Some c \<Rightarrow>
          setHeader ''Access-Control-Allow-Headers'' ''content-type''
            (setHeader ''Access-Control-Allow-Credentials'' ''true''
              (setHeader ''Access-Control-Allow-Origin'' (origin c) s)))"

text \<open>The body of the \<^verbatim>\<open>try\<close> block: what it throws, if anything, and the state it leaves.\<close>

definition serve :: "'v platform \<Rightarrow> ('a, 'v) api \<Rightarrow> request \<Rightarrow> state \<Rightarrow> thrown option \<times> state" where
  "serve pf a req s0 =
     (let s = cors_headers (api_cors a) s0
      in if req_method req = ''OPTIONS'' then (None, res_end None (s\<lparr>res_statusCode := 204\<rparr>))
         else
           (let path = request_path req;
                s1 = logged (Lookup path) s
            in case routes a path of
                 None \<Rightarrow> (None, res_end (Some (quoted ''NOT_FOUND'')) (s1\<lparr>res_statusCode := 404\<rparr>))
               | Some (Upload handler) \<Rightarrow> serve_upload handler (ctx a) req s1
               | Some route \<Rightarrow>
                   (case readBody (toString_utf8 pf) (maxSize (api_options a)) (req_unread s1) [] 0 of
                      (None, rest) \<Rightarrow>
                        (None, res_end (Some (quoted ''PAYLOAD_TOO_LARGE''))
                                 (s1\<lparr>req_unread := rest, res_statusCode := 413\<rparr>))
                    | (Some b, rest) \<Rightarrow>
                        (let s2 = s1\<lparr>req_unread := rest\<rparr>
                         in case streamError req of
                              Some err \<Rightarrow> (Some err, s2)
                            | None \<Rightarrow>
                                (let cx = \<lparr>req_body = Some b, req_stream = rest, app = ctx a\<rparr>
                                 in case route of
                                      Rpc handler \<Rightarrow> serve_rpc pf handler cx req s2
                                    | Sse handler \<Rightarrow> serve_sse pf handler cx req s2
                                    | Blob handler \<Rightarrow> serve_blob handler cx req s2
                                    | Upload handler \<Rightarrow> (None, s2))))))"

text \<open>The listener given to \<^verbatim>\<open>createServer\<close>: the \<^verbatim>\<open>try\<close> block and its \<^verbatim>\<open>catch\<close>.\<close>

definition handle :: "'v platform \<Rightarrow> ('a, 'v) api \<Rightarrow> request \<Rightarrow> state" where
  "handle pf a req =
     (case serve pf a req (initial req) of
        (None, s) \<Rightarrow> s
      | (Some err, s) \<Rightarrow> handleError err s)"

section \<open>A concrete platform and server\<close>

text \<open>
  A small type of JavaScript values with the three behaviours of \<^verbatim>\<open>JSON.stringify\<close>: a string
  without characters to escape is serialised between quotes, a function gives \<^verbatim>\<open>undefined\<close>,
  a circular structure throws.
\<close>

datatype js_value = JString string | JFunction | JCircular

fun stringify :: "js_value \<Rightarrow> thrown + string option" where
  "stringify (JString t) = Inr (Some (quoted t))"
| "stringify JFunction = Inr None"
| "stringify JCircular = Inl (OtherError ''TypeError: Converting circular structure to JSON'')"

definition node :: "js_value platform" where
  "node = \<lparr>toString_utf8 = utf8_decode, JSON_stringify = stringify\<rparr>"

text \<open>The server of \<^verbatim>\<open>api.test.ts\<close>, with an rpc handler that returns a fixed value.\<close>

definition test_server :: "(string, js_value) api" where
  "test_server =
     upload ''/upload'' (\<lambda>c. None)
       (rpc ''/rpc'' (\<lambda>c. Inr (Some (JString ''from-context'')))
         (Api_new ''from-context'' None))"

text \<open>
  A server with a limit of four bytes, CORS, and one route of each buffered kind. Its SSE
  handlers register two cleanups, the first of which throws, emit once and return; on
  \<^verbatim>\<open>/events\<close> the connection stays open, on \<^verbatim>\<open>/closing\<close> the request closes afterwards, on
  \<^verbatim>\<open>/stream\<close> both directions close and a timer emits once more.
\<close>

definition two_cleanups :: "js_value sse_event list" where
  "two_cleanups =
     [OnCleanup (Callback 1 (Some (OtherError ''boom''))), OnCleanup (Callback 2 None),
      Emit ''tick'' (JString ''0''), HandlerReturn]"

definition small_server :: "(unit, js_value) api" where
  "small_server =
     sse ''/stream'' (\<lambda>c. two_cleanups @ [ResClose, ReqClose, Emit ''tick'' (JString ''1'')])
       (sse ''/closing'' (\<lambda>c. two_cleanups @ [ReqClose])
         (sse ''/events'' (\<lambda>c. two_cleanups)
           (blob ''/file'' (\<lambda>c. Inr (Buffer ''data''))
             (rpc ''/rpc'' (\<lambda>c. Inr None)
               (Api_new () (Some \<lparr>maxRequestSize = Some 4, cors = Some \<lparr>origin = ''*''\<rparr>\<rparr>))))))"

text \<open>
  A server whose handlers fail: in each of the ways \<^verbatim>\<open>handleError\<close> tells apart, in each kind
  of route, with a status no response can carry, and in an SSE session before and after an emit.
\<close>

definition failing_server :: "(unit, js_value) api" where
  "failing_server =
     sse ''/sse-late''
         (\<lambda>c. [OnCleanup (Callback 1 None), Emit ''tick'' (JString ''0''),
               HandlerThrow (OtherError ''secret detail'')])
       (sse ''/sse-early'' (\<lambda>c. [OnCleanup (Callback 1 None), HandlerThrow (HttpError ForbiddenError)])
         (upload ''/upload-fail'' (\<lambda>c. Some (HttpError UnauthorizedError))
           (blob ''/blob-fail'' (\<lambda>c. Inl (HttpError NotFoundError))
             (rpc ''/bad-status'' (\<lambda>c. Inl (HttpError (HttpError_new 1000 ''TOO_BIG'')))
               (rpc ''/circular'' (\<lambda>c. Inr (Some JCircular))
                 (rpc ''/crash'' (\<lambda>c. Inl (OtherError ''TypeError: x is undefined at handler.ts:3''))
                   (rpc ''/invalid'' (\<lambda>c. Inl (ValidationError ''INVALID_EMAIL''))
                     (rpc ''/forbidden'' (\<lambda>c. Inl (HttpError ForbiddenError))
                       (Api_new () None)))))))))"

definition http :: "string \<Rightarrow> string \<Rightarrow> buffer list \<Rightarrow> request" where
  "http m path cs = \<lparr>req_method = m, req_url = Some path, chunks = cs, streamError = None\<rparr>"

lemmas response_defs = setHeader_def getHeader_def res_write_def res_end_def logged_def

lemmas dispatch_defs = handle_def serve_def serve_rpc_def serve_sse_def serve_blob_def
  serve_upload_def cors_headers_def initial_def maxSize_def request_path_def

lemmas server_defs = Api_new_def rpc_def sse_def blob_def upload_def test_server_def
  small_server_def two_cleanups_def failing_server_def http_def node_def

section \<open>Facts about the dispatcher's branches\<close>

lemma cors_headers_fields [simp]:
  "res_statusCode (cors_headers co s) = res_statusCode s"
  "res_body (cors_headers co s) = res_body s"
  "res_ended (cors_headers co s) = res_ended s"
  "req_unread (cors_headers co s) = req_unread s"
  "trace (cors_headers co s) = trace s"
  "closed (cors_headers co s) = closed s"
  "cleanups (cors_headers co s) = cleanups s"
  "ran (cors_headers co s) = ran s"
  by (simp_all add: cors_headers_def setHeader_def split: option.splits)

lemma serve_options:
  "req_method req = ''OPTIONS'' \<Longrightarrow>
   serve pf a req s0 = (None, res_end None ((cors_headers (api_cors a) s0)\<lparr>res_statusCode := 204\<rparr>))"
  by (simp add: serve_def)

lemma serve_not_found:
  "req_method req \<noteq> ''OPTIONS'' \<Longrightarrow> routes a (request_path req) = None \<Longrightarrow>
   serve pf a req s0 =
     (None, res_end (Some (quoted ''NOT_FOUND''))
        ((logged (Lookup (request_path req)) (cors_headers (api_cors a) s0))\<lparr>res_statusCode := 404\<rparr>))"
  by (simp add: serve_def)

lemma serve_too_large:
  assumes "req_method req \<noteq> ''OPTIONS''" and "routes a (request_path req) = Some r"
    and "kind r \<noteq> KUpload"
    and "s1 = logged (Lookup (request_path req)) (cors_headers (api_cors a) s0)"
    and "readBody (toString_utf8 pf) (maxSize (api_options a)) (req_unread s1) [] 0 = (None, rest)"
  shows "serve pf a req s0 =
     (None, res_end (Some (quoted ''PAYLOAD_TOO_LARGE'')) (s1\<lparr>req_unread := rest, res_statusCode := 413\<rparr>))"
  using assms by (cases r) (simp_all add: serve_def)

lemma serve_stream_error:
  assumes "req_method req \<noteq> ''OPTIONS''" and "routes a (request_path req) = Some r"
    and "kind r \<noteq> KUpload"
    and "s1 = logged (Lookup (request_path req)) (cors_headers (api_cors a) s0)"
    and "readBody (toString_utf8 pf) (maxSize (api_options a)) (req_unread s1) [] 0 = (Some b, rest)"
    and "streamError req = Some err"
  shows "serve pf a req s0 = (Some err, s1\<lparr>req_unread := rest\<rparr>)"
  using assms by (cases r) (simp_all add: serve_def)

lemma serve_with_body:
  assumes "req_method req \<noteq> ''OPTIONS''" and "routes a (request_path req) = Some r"
    and "s1 = logged (Lookup (request_path req)) (cors_headers (api_cors a) s0)"
    and "readBody (toString_utf8 pf) (maxSize (api_options a)) (req_unread s1) [] 0 = (Some b, rest)"
    and "streamError req = None"
    and "cx = \<lparr>req_body = Some b, req_stream = rest, app = ctx a\<rparr>"
  shows "r = Rpc h \<Longrightarrow> serve pf a req s0 = serve_rpc pf h cx req (s1\<lparr>req_unread := rest\<rparr>)"
    and "r = Sse g \<Longrightarrow> serve pf a req s0 = serve_sse pf g cx req (s1\<lparr>req_unread := rest\<rparr>)"
    and "r = Blob k \<Longrightarrow> serve pf a req s0 = serve_blob k cx req (s1\<lparr>req_unread := rest\<rparr>)"
  using assms by (simp_all add: serve_def)

lemma readBody_fits:
  "size0 + sum_list (map length cs) \<le> mx \<Longrightarrow>
   readBody dec mx cs body0 size0 = (Some (body0 @ concat (map dec cs)), [])"
  by (induction cs arbitrary: body0 size0) (simp_all add: Let_def)

lemma readBody_exceeds:
  "mx < size0 + sum_list (map length cs) \<Longrightarrow> size0 \<le> mx \<Longrightarrow>
   \<exists>pre c post. cs = pre @ c # post \<and> size0 + sum_list (map length pre) \<le> mx \<and>
      mx < size0 + sum_list (map length pre) + length c \<and>
      readBody dec mx cs body0 size0 = (None, post)"
proof (induction cs arbitrary: body0 size0)
  case Nil
  then show ?case by simp
next
  case (Cons c cs)
  show ?case
  proof (cases "mx < size0 + length c")
    case True
    then have "readBody dec mx (c # cs) body0 size0 = (None, cs)" by simp
    with True Cons.prems(2) show ?thesis by (intro exI[of _ "[]"] exI[of _ c] exI[of _ cs]) simp
  next
    case False
    with Cons.prems have "mx < (size0 + length c) + sum_list (map length cs)" "size0 + length c \<le> mx"
      by simp_all
    from Cons.IH[OF this, of "body0 @ dec c"] obtain pre d post where
      h: "cs = pre @ d # post" "size0 + length c + sum_list (map length pre) \<le> mx"
         "mx < size0 + length c + sum_list (map length pre) + length d"
         "readBody dec mx cs (body0 @ dec c) (size0 + length c) = (None, post)"
      by blast
    with False show ?thesis
      by (intro exI[of _ "c # pre"] exI[of _ d] exI[of _ post]) (simp add: Let_def)
  qed
qed


lemma handle_options:
  "req_method req = ''OPTIONS'' \<Longrightarrow>
   handle pf a req = res_end None ((cors_headers (api_cors a) (initial req))\<lparr>res_statusCode := 204\<rparr>)"
  by (simp add: handle_def serve_options)

lemma serve_fits:
  assumes "req_method req \<noteq> ''OPTIONS''" and "routes a (request_path req) = Some r"
    and "sum_list (map length (chunks req)) \<le> maxSize (api_options a)"
    and "streamError req = None"
    and "s2 = (logged (Lookup (request_path req)) (cors_headers (api_cors a) (initial req)))\<lparr>req_unread := []\<rparr>"
    and "cx = \<lparr>req_body = Some (concat (map (toString_utf8 pf) (chunks req))), req_stream = [], app = ctx a\<rparr>"
  shows "r = Rpc h \<Longrightarrow> serve pf a req (initial req) = serve_rpc pf h cx req s2"
    and "r = Sse g \<Longrightarrow> serve pf a req (initial req) = serve_sse pf g cx req s2"
    and "r = Blob k \<Longrightarrow> serve pf a req (initial req) = serve_blob k cx req s2"
proof -
  let ?s1 = "logged (Lookup (request_path req)) (cors_headers (api_cors a) (initial req))"
  have u: "req_unread ?s1 = chunks req" by (simp add: logged_def initial_def)
  have rb: "readBody (toString_utf8 pf) (maxSize (api_options a)) (req_unread ?s1) [] 0
      = (Some (concat (map (toString_utf8 pf) (chunks req))), [])"
    using readBody_fits [of 0 "chunks req" "maxSize (api_options a)" "toString_utf8 pf" "[]"] assms(3) u
    by simp
  show "r = Rpc h \<Longrightarrow> serve pf a req (initial req) = serve_rpc pf h cx req s2"
    using serve_with_body(1) [OF assms(1,2) refl rb assms(4) assms(6)] assms(5) by simp
  show "r = Sse g \<Longrightarrow> serve pf a req (initial req) = serve_sse pf g cx req s2"
    using serve_with_body(2) [OF assms(1,2) refl rb assms(4) assms(6)] assms(5) by simp
  show "r = Blob k \<Longrightarrow> serve pf a req (initial req) = serve_blob k cx req s2"
    using serve_with_body(3) [OF assms(1,2) refl rb assms(4) assms(6)] assms(5) by simp
qed

lemma http_error_classes:
  "statusCode NotFoundError = 404 \<and> body NotFoundError = quoted ''NOT_FOUND''"
  "statusCode MethodNotAllowedError = 405 \<and> body MethodNotAllowedError = quoted ''METHOD_NOT_ALLOWED''"
  "statusCode BadRequestError = 400 \<and> body BadRequestError = quoted ''BAD_REQUEST''"
  "statusCode UnauthorizedError = 401 \<and> body UnauthorizedError = quoted ''UNAUTHORIZED''"
  "statusCode ForbiddenError = 403 \<and> body ForbiddenError = quoted ''FORBIDDEN''"
  "statusCode InternalServerError = 500 \<and> body InternalServerError = quoted ''INTERNAL_ERROR''"
  "statusCode NotImplementedError = 501 \<and> body NotImplementedError = quoted ''NOT_IMPLEMENTED''"
  by (simp_all add: NotFoundError_def MethodNotAllowedError_def BadRequestError_def
      UnauthorizedError_def ForbiddenError_def InternalServerError_def NotImplementedError_def
      HttpError_new_def)

lemma handleError_mapped:
  assumes "\<not> res_ended s" and "mappable err"
  shows "handleError err s =
     s\<lparr>res_statusCode := spec_status err, res_body := res_body s @ spec_body err, res_ended := True\<rparr>"
  using assms by (cases err) (simp_all add: res_end_def end_throws_def)

lemma handleError_written:
  assumes "\<not> res_ended s" and "res_body s \<noteq> []"
  shows "handleError err s =
     s\<lparr>res_statusCode := spec_status err, res_body := res_body s @ spec_body err, res_ended := True\<rparr>"
  using assms by (cases err) (simp_all add: res_end_def end_throws_def)

lemma handleError_refused:
  assumes "\<not> res_ended s" and "res_body s = []" and "\<not> mappable (HttpError e)"
  shows "handleError (HttpError e) s = s\<lparr>res_statusCode := statusCode e\<rparr>"
  using assms by (auto simp: end_throws_def)

lemma serve_upload_throw:
  "serve_upload h c req s = (Some err, s') \<Longrightarrow> res_body s' = res_body s \<and> res_ended s' = res_ended s"
  by (auto simp: serve_upload_def logged_def Let_def split: if_splits option.splits)

lemma serve_rpc_throw:
  "serve_rpc pf h cx req s = (Some err, s') \<Longrightarrow> res_body s' = res_body s \<and> res_ended s' = res_ended s"
  by (auto simp: serve_rpc_def logged_def setHeader_def Let_def split: if_splits option.splits sum.splits)

lemma serve_blob_throw:
  "serve_blob h cx req s = (Some err, s') \<Longrightarrow> res_body s' = res_body s \<and> res_ended s' = res_ended s"
  by (auto simp: serve_blob_def logged_def Let_def split: if_splits option.splits sum.splits blob_data.splits)

lemma serve_sse_throw:
  "serve_sse pf h cx req s = (Some err, s') \<Longrightarrow> False"
  by (auto simp: serve_sse_def Let_def split: if_splits)

lemma serve_throw_fresh:
  assumes "serve pf a req (initial req) = (Some err, s')"
  shows "res_body s' = [] \<and> \<not> res_ended s'"
proof -
  let ?s1 = "logged (Lookup (request_path req)) (cors_headers (api_cors a) (initial req))"
  have f: "res_body ?s1 = []" "\<not> res_ended ?s1" by (simp_all add: logged_def initial_def)
  from assms have m: "req_method req \<noteq> ''OPTIONS''" by (auto simp: serve_def)
  from assms m obtain r where r: "routes a (request_path req) = Some r"
    by (cases "routes a (request_path req)") (auto simp: serve_def)
  show ?thesis
  proof (cases r)
    case (Upload h)
    with assms m r have "serve_upload h (ctx a) req ?s1 = (Some err, s')" by (simp add: serve_def)
    from serve_upload_throw [OF this] f show ?thesis by simp
  next
    case (Rpc h)
    obtain ob rest where rb: "readBody (toString_utf8 pf) (maxSize (api_options a)) (req_unread ?s1) [] 0 = (ob, rest)"
      by (cases "readBody (toString_utf8 pf) (maxSize (api_options a)) (req_unread ?s1) [] 0")
    show ?thesis
    proof (cases ob)
      case None
      with assms m r Rpc rb show ?thesis by (simp add: serve_def)
    next
      case (Some b)
      show ?thesis
      proof (cases "streamError req")
        case (Some e)
        with assms m r Rpc rb \<open>ob = Some b\<close> f show ?thesis by (auto simp: serve_def)
      next
        case None
        with assms m r Rpc rb \<open>ob = Some b\<close>
        have "serve_rpc pf h \<lparr>req_body = Some b, req_stream = rest, app = ctx a\<rparr> req (?s1\<lparr>req_unread := rest\<rparr>) = (Some err, s')"
          by (simp add: serve_def)
        from serve_rpc_throw [OF this] f show ?thesis by simp
      qed
    qed
  next
    case (Sse h)
    obtain ob rest where rb: "readBody (toString_utf8 pf) (maxSize (api_options a)) (req_unread ?s1) [] 0 = (ob, rest)"
      by (cases "readBody (toString_utf8 pf) (maxSize (api_options a)) (req_unread ?s1) [] 0")
    show ?thesis
    proof (cases ob)
      case None
      with assms m r Sse rb show ?thesis by (simp add: serve_def)
    next
      case (Some b)
      show ?thesis
      proof (cases "streamError req")
        case (Some e)
        with assms m r Sse rb \<open>ob = Some b\<close> f show ?thesis by (auto simp: serve_def)
      next
        case None
        with assms m r Sse rb \<open>ob = Some b\<close>
        have "serve_sse pf h \<lparr>req_body = Some b, req_stream = rest, app = ctx a\<rparr> req (?s1\<lparr>req_unread := rest\<rparr>) = (Some err, s')"
          by (simp add: serve_def)
        from serve_sse_throw [OF this] show ?thesis by simp
      qed
    qed
  next
    case (Blob h)
    obtain ob rest where rb: "readBody (toString_utf8 pf) (maxSize (api_options a)) (req_unread ?s1) [] 0 = (ob, rest)"
      by (cases "readBody (toString_utf8 pf) (maxSize (api_options a)) (req_unread ?s1) [] 0")
    show ?thesis
    proof (cases ob)
      case None
      with assms m r Blob rb show ?thesis by (simp add: serve_def)
    next
      case (Some b)
      show ?thesis
      proof (cases "streamError req")
        case (Some e)
        with assms m r Blob rb \<open>ob = Some b\<close> f show ?thesis by (auto simp: serve_def)
      next
        case None
        with assms m r Blob rb \<open>ob = Some b\<close>
        have "serve_blob h \<lparr>req_body = Some b, req_stream = rest, app = ctx a\<rparr> req (?s1\<lparr>req_unread := rest\<rparr>) = (Some err, s')"
          by (simp add: serve_def)
        from serve_blob_throw [OF this] f show ?thesis by simp
      qed
    qed
  qed
qed

lemma rpc_handler_body:
  assumes "req_method req = ''POST''" and "routes a (request_path req) = Some (Rpc h)"
    and "sum_list (map length (chunks req)) \<le> maxSize (api_options a)"
    and "streamError req = None"
  shows "trace (handle pf a req) =
     [Lookup (request_path req), Invoke KRpc (Some (concat (map (toString_utf8 pf) (chunks req))))]"
proof -
  have m: "req_method req \<noteq> ''OPTIONS''" using assms(1) by simp
  note sv = serve_fits(1) [OF m assms(2,3,4) refl refl refl]
  have t: "trace (handleError err s) = trace s" for err s
    by (cases err) (simp_all add: res_end_def Let_def)
  show ?thesis
    unfolding handle_def sv using assms(1)
    by (simp add: serve_rpc_def res_end_def logged_def initial_def setHeader_def t Let_def
        split: sum.splits option.splits)
qed

text \<open>A result that \<^verbatim>\<open>JSON.stringify\<close> throws on is answered 500.\<close>

lemma rpc_unserializable_result:
  "res_statusCode (handle node failing_server (http ''POST'' ''/circular'' [])) = 500 \<and>
   res_body (handle node failing_server (http ''POST'' ''/circular'' [])) = quoted ''INTERNAL_ERROR''"
  by (simp add: dispatch_defs response_defs server_defs utf8_decode_def)

subsection \<open>Facts about the SSE session\<close>

lemma run_all_fields [simp]:
  "ran (run_all fns s) = ran s @ fns"
  "closed (run_all fns s) = closed s"
  "cleanups (run_all fns s) = cleanups s"
  "res_body (run_all fns s) = res_body s"
  "res_ended (run_all fns s) = res_ended s"
  by (induction fns arbitrary: s) (simp_all add: call_cleanup_def)

lemma runCleanup_first:
  "\<not> closed s \<Longrightarrow> closed (runCleanup s) \<and> ran (runCleanup s) = ran s @ cleanups s"
  by (simp add: runCleanup_def)

lemma runCleanup_again: "closed s \<Longrightarrow> runCleanup s = s"
  by (simp add: runCleanup_def)

lemma handleError_session [simp]:
  "closed (handleError err s) = closed s"
  "cleanups (handleError err s) = cleanups s"
  "ran (handleError err s) = ran s"
  by (cases err; simp add: res_end_def Let_def split: option.splits)+

lemma emit_session [simp]:
  "closed (snd (emit pf ev d s)) = closed s"
  "cleanups (snd (emit pf ev d s)) = cleanups s"
  "ran (snd (emit pf ev d s)) = ran s"
  by (simp_all add: emit_def res_write_def Let_def split: sum.splits option.splits)

lemma sse_step_quiet:
  "\<not> is_close e \<Longrightarrow> closed (sse_step pf e s) = closed s \<and> ran (sse_step pf e s) = ran s"
  by (cases e) (simp_all add: onCleanup_def)

lemma sse_step_cleanups:
  "cleanups (sse_step pf e s) = cleanups s @ registered [e]"
  by (cases e) (simp_all add: onCleanup_def runCleanup_def)

lemma sse_step_closed:
  "closed s \<Longrightarrow> closed (sse_step pf e s) \<and> ran (sse_step pf e s) = ran s"
  by (cases e) (simp_all add: onCleanup_def runCleanup_def)

lemma sse_run_append: "sse_run pf (es @ fs) s = sse_run pf fs (sse_run pf es s)"
  by (induction es arbitrary: s) simp_all

lemma registered_append: "registered (es @ fs) = registered es @ registered fs"
  by (induction es rule: registered.induct) simp_all

lemma sse_run_quiet:
  "\<not> list_ex is_close es \<Longrightarrow>
   closed (sse_run pf es s) = closed s \<and> ran (sse_run pf es s) = ran s \<and>
   cleanups (sse_run pf es s) = cleanups s @ registered es"
proof (induction es arbitrary: s)
  case Nil
  then show ?case by simp
next
  case (Cons e es)
  then have q: "\<not> is_close e" and r: "\<not> list_ex is_close es" by simp_all
  have "registered (e # es) = registered [e] @ registered es"
    using registered_append [of "[e]" es] by simp
  with Cons.IH [OF r, of "sse_step pf e s"] sse_step_quiet [OF q, of pf s] sse_step_cleanups [of pf e s]
  show ?case by simp
qed

lemma sse_run_closed:
  "closed s \<Longrightarrow> closed (sse_run pf es s) \<and> ran (sse_run pf es s) = ran s"
proof (induction es arbitrary: s)
  case Nil
  then show ?case by simp
next
  case (Cons e es)
  from sse_step_closed [OF Cons.prems, of pf e] Cons.IH [of "sse_step pf e s"]
  show ?case by simp
qed

lemma sse_run_first_close:
  assumes "\<not> closed s" and "\<not> list_ex is_close es" and "is_close c"
  shows "closed (sse_run pf (es @ c # later) s) \<and>
     ran (sse_run pf (es @ c # later) s) = ran s @ cleanups s @ registered es"
proof -
  let ?t = "sse_run pf es s"
  from sse_run_quiet [OF assms(2), of pf s] assms(1)
  have t: "\<not> closed ?t" "ran ?t = ran s" "cleanups ?t = cleanups s @ registered es" by simp_all
  from assms(3) have "sse_step pf c ?t = runCleanup ?t" by (cases c) simp_all
  with runCleanup_first [OF t(1)] t
  have u: "closed (sse_step pf c ?t)" "ran (sse_step pf c ?t) = ran s @ cleanups s @ registered es"
    by simp_all
  have "sse_run pf (es @ c # later) s = sse_run pf later (sse_step pf c ?t)"
    by (simp add: sse_run_append)
  with sse_run_closed [OF u(1), of pf later] u(2) show ?thesis by simp
qed

lemma handle_sse:
  assumes "req_method req = ''GET''" and "routes a (request_path req) = Some (Sse g)"
    and "sum_list (map length (chunks req)) \<le> maxSize (api_options a)"
    and "streamError req = None"
    and "cx = \<lparr>req_body = Some (concat (map (toString_utf8 pf) (chunks req))), req_stream = [], app = ctx a\<rparr>"
  shows "\<exists>s. handle pf a req = sse_run pf (g cx) s \<and> \<not> closed s \<and> cleanups s = [] \<and> ran s = [] \<and>
           res_body s = [] \<and> \<not> res_ended s"
proof -
  have m: "req_method req \<noteq> ''OPTIONS''" using assms(1) by simp
  note sv = serve_fits(2) [OF m assms(2,3,4) refl assms(5) refl]
  let ?s2 = "(logged (Lookup (request_path req)) (cors_headers (api_cors a) (initial req)))\<lparr>req_unread := []\<rparr>"
  let ?s3 = "logged (Invoke KSse (req_body cx))
      ((setHeader ''connection'' ''keep-alive''
         (setHeader ''cache-control'' ''no-cache''
           (setHeader ''content-type'' ''text/event-stream'' ?s2)))\<lparr>cleanups := [], closed := False\<rparr>)"
  have "handle pf a req = sse_run pf (g cx) ?s3"
    unfolding handle_def sv using assms(1) by (simp add: serve_sse_def)
  moreover have "\<not> closed ?s3" "cleanups ?s3 = []" "ran ?s3 = []" "res_body ?s3 = []" "\<not> res_ended ?s3"
    by (simp_all add: logged_def setHeader_def initial_def)
  ultimately show ?thesis by blast
qed

subsection \<open>Facts about failures\<close>

text \<open>
  Each place where the \<^verbatim>\<open>try\<close> block can fail hands the thrown value itself to the \<^verbatim>\<open>catch\<close>,
  with nothing written to the response; an SSE session changes the status and the end of the
  response only where its handler fails.
\<close>

lemma handle_catch:
  assumes "serve pf a req (initial req) = (Some err, s')" and "mappable err"
  shows "answered err (handle pf a req)"
proof -
  from serve_throw_fresh [OF assms(1)] have f: "res_body s' = []" "\<not> res_ended s'" by simp_all
  have "handle pf a req = handleError err s'" using assms(1) by (simp add: handle_def)
  with handleError_mapped [OF f(2) assms(2)] f(1) show ?thesis by (simp add: answered_def)
qed

lemma stream_failure:
  assumes "req_method req \<noteq> ''OPTIONS''" and "routes a (request_path req) = Some r"
    and "kind r \<noteq> KUpload"
    and "sum_list (map length (chunks req)) \<le> maxSize (api_options a)"
    and "streamError req = Some err"
  shows "\<exists>s'. serve pf a req (initial req) = (Some err, s')"
proof -
  let ?s1 = "logged (Lookup (request_path req)) (cors_headers (api_cors a) (initial req))"
  have u: "req_unread ?s1 = chunks req" by (simp add: logged_def initial_def)
  have rb: "readBody (toString_utf8 pf) (maxSize (api_options a)) (req_unread ?s1) [] 0
      = (Some (concat (map (toString_utf8 pf) (chunks req))), [])"
    using readBody_fits [of 0 "chunks req" "maxSize (api_options a)" "toString_utf8 pf" "[]"] assms(4) u
    by simp
  from serve_stream_error [OF assms(1,2,3) refl rb assms(5)] show ?thesis by blast
qed

lemma rpc_handler_failure:
  assumes "req_method req = ''POST''" and "routes a (request_path req) = Some (Rpc h)"
    and "sum_list (map length (chunks req)) \<le> maxSize (api_options a)"
    and "streamError req = None"
    and "cx = \<lparr>req_body = Some (concat (map (toString_utf8 pf) (chunks req))), req_stream = [], app = ctx a\<rparr>"
  shows "h cx = Inl err \<Longrightarrow> \<exists>s'. serve pf a req (initial req) = (Some err, s')"
    and "h cx = Inr (Some v) \<Longrightarrow> JSON_stringify pf v = Inl err \<Longrightarrow>
         \<exists>s'. serve pf a req (initial req) = (Some err, s')"
proof -
  have m: "req_method req \<noteq> ''OPTIONS''" using assms(1) by simp
  note sv = serve_fits(1) [OF m assms(2,3,4) refl assms(5) refl]
  show "h cx = Inl err \<Longrightarrow> \<exists>s'. serve pf a req (initial req) = (Some err, s')"
    unfolding sv using assms(1) by (simp add: serve_rpc_def)
  show "h cx = Inr (Some v) \<Longrightarrow> JSON_stringify pf v = Inl err \<Longrightarrow>
         \<exists>s'. serve pf a req (initial req) = (Some err, s')"
    unfolding sv using assms(1) by (simp add: serve_rpc_def)
qed

lemma blob_handler_failure:
  assumes "req_method req = ''GET''" and "routes a (request_path req) = Some (Blob k)"
    and "sum_list (map length (chunks req)) \<le> maxSize (api_options a)"
    and "streamError req = None"
    and "cx = \<lparr>req_body = Some (concat (map (toString_utf8 pf) (chunks req))), req_stream = [], app = ctx a\<rparr>"
    and "k cx = Inl err"
  shows "\<exists>s'. serve pf a req (initial req) = (Some err, s')"
proof -
  have m: "req_method req \<noteq> ''OPTIONS''" using assms(1) by simp
  note sv = serve_fits(3) [OF m assms(2,3,4) refl assms(5) refl]
  show ?thesis unfolding sv using assms(1,6) by (simp add: serve_blob_def)
qed

lemma upload_handler_failure:
  assumes "req_method req = ''POST''" and "routes a (request_path req) = Some (Upload u)"
    and "u \<lparr>req_body = None, req_stream = chunks req, app = ctx a\<rparr> = Some err"
  shows "\<exists>s'. serve pf a req (initial req) = (Some err, s')"
  using assms by (simp add: serve_def serve_upload_def logged_def initial_def)

lemma run_all_status [simp]: "res_statusCode (run_all fns s) = res_statusCode s"
  by (induction fns arbitrary: s) (simp_all add: call_cleanup_def)

lemma sse_step_response:
  assumes "\<not> is_throw e"
  shows "res_statusCode (sse_step pf e s) = res_statusCode s"
    and "res_ended (sse_step pf e s) = res_ended s"
    and "res_ended s \<or> \<not> is_emit e \<Longrightarrow> res_body (sse_step pf e s) = res_body s"
  using assms
  by (cases e; auto simp: emit_def res_write_def onCleanup_def runCleanup_def Let_def
      split: sum.splits option.splits)+

lemma sse_run_response:
  assumes "\<not> list_ex is_throw es"
  shows "res_statusCode (sse_run pf es s) = res_statusCode s"
    and "res_ended (sse_run pf es s) = res_ended s"
    and "res_ended s \<or> \<not> list_ex is_emit es \<Longrightarrow> res_body (sse_run pf es s) = res_body s"
  using assms
proof (induction es arbitrary: s)
  case Nil
  { case 1 show ?case by simp next
    case 2 show ?case by simp next
    case 3 show ?case by simp }
next
  case (Cons e es)
  { case 1
    then have q: "\<not> is_throw e" "\<not> list_ex is_throw es" by simp_all
    show ?case using Cons.IH(1) [OF q(2), of "sse_step pf e s"] sse_step_response(1) [OF q(1), of pf s]
      by simp
  next
    case 2
    then have q: "\<not> is_throw e" "\<not> list_ex is_throw es" by simp_all
    show ?case using Cons.IH(2) [OF q(2), of "sse_step pf e s"] sse_step_response(2) [OF q(1), of pf s]
      by simp
  next
    case 3
    then have q: "\<not> is_throw e" "\<not> list_ex is_throw es" by simp_all
    from 3(1) have c: "res_ended s \<or> \<not> is_emit e" "res_ended (sse_step pf e s) \<or> \<not> list_ex is_emit es"
      using sse_step_response(2) [OF q(1), of pf s] by auto
    show ?case
      using Cons.IH(3) [OF c(2) q(2)] sse_step_response(3) [OF q(1) c(1), of pf] by simp
  }
qed


lemma handle_sse_run:
  assumes "req_method req = ''GET''" and "routes a (request_path req) = Some (Sse g)"
    and "sum_list (map length (chunks req)) \<le> maxSize (api_options a)"
    and "streamError req = None"
    and "cx = \<lparr>req_body = Some (concat (map (toString_utf8 pf) (chunks req))), req_stream = [], app = ctx a\<rparr>"
  shows "handle pf a req =
     sse_run pf (g cx)
       (logged (Invoke KSse (req_body cx))
         ((setHeader ''connection'' ''keep-alive''
            (setHeader ''cache-control'' ''no-cache''
              (setHeader ''content-type'' ''text/event-stream''
                ((logged (Lookup (request_path req)) (cors_headers (api_cors a) (initial req)))
                   \<lparr>req_unread := []\<rparr>))))\<lparr>cleanups := [], closed := False\<rparr>))"
proof -
  have m: "req_method req \<noteq> ''OPTIONS''" using assms(1) by simp
  note sv = serve_fits(2) [OF m assms(2,3,4) refl assms(5) refl]
  show ?thesis unfolding handle_def sv using assms(1) by (simp add: serve_sse_def)
qed

lemma sse_handler_failure:
  assumes "req_method req = ''GET''" and "routes a (request_path req) = Some (Sse g)"
    and "sum_list (map length (chunks req)) \<le> maxSize (api_options a)"
    and "streamError req = None"
    and "cx = \<lparr>req_body = Some (concat (map (toString_utf8 pf) (chunks req))), req_stream = [], app = ctx a\<rparr>"
    and "g cx = es @ HandlerThrow err # later"
    and "\<not> list_ex is_throw es" and "\<not> list_ex is_throw later" and "mappable err"
  shows "res_statusCode (handle pf a req) = spec_status err"
    and "res_ended (handle pf a req)"
    and "res_body (handle pf a req)
           = res_body (handle pf (sse (request_path req) (\<lambda>c. es) a) req) @ spec_body err"
    and "\<not> list_ex is_emit es \<Longrightarrow> answered err (handle pf a req)"
proof -
  let ?S = "logged (Invoke KSse (req_body cx))
         ((setHeader ''connection'' ''keep-alive''
            (setHeader ''cache-control'' ''no-cache''
              (setHeader ''content-type'' ''text/event-stream''
                ((logged (Lookup (request_path req)) (cors_headers (api_cors a) (initial req)))
                   \<lparr>req_unread := []\<rparr>))))\<lparr>cleanups := [], closed := False\<rparr>)"
  let ?a' = "sse (request_path req) (\<lambda>c. es) a"
  let ?T = "sse_run pf es ?S"
  have S: "\<not> res_ended ?S" "res_body ?S = []"
    by (simp_all add: logged_def setHeader_def initial_def)
  have H: "handle pf a req = sse_run pf (g cx) ?S"
    by (rule handle_sse_run [OF assms(1-5)])
  have a': "routes ?a' (request_path req) = Some (Sse (\<lambda>c. es))" "api_cors ?a' = api_cors a"
    "api_options ?a' = api_options a" "ctx ?a' = ctx a"
    by (simp_all add: sse_def)
  have "handle pf ?a' req = sse_run pf ((\<lambda>c. es) cx) ?S"
    using handle_sse_run [of req ?a' "\<lambda>c. es" cx pf] assms(1,3,4,5) a' by simp
  then have H': "handle pf ?a' req = ?T" by simp
  have T: "\<not> res_ended ?T" using sse_run_response(2) [OF assms(7), of pf ?S] S(1) by simp
  let ?U = "handleError err ?T"
  have U: "?U = ?T\<lparr>res_statusCode := spec_status err, res_body := res_body ?T @ spec_body err,
      res_ended := True\<rparr>"
    by (rule handleError_mapped [OF T assms(9)])
  have "sse_run pf (g cx) ?S = sse_run pf later ?U"
    using assms(6) by (simp add: sse_run_append)
  with H have HU: "handle pf a req = sse_run pf later ?U" by simp
  have Ue: "res_ended ?U" using U by simp
  show st: "res_statusCode (handle pf a req) = spec_status err"
    unfolding HU using sse_run_response(1) [OF assms(8), of pf ?U] U by simp
  show en: "res_ended (handle pf a req)"
    unfolding HU using sse_run_response(2) [OF assms(8), of pf ?U] Ue by simp
  have bd: "res_body (handle pf a req) = res_body ?T @ spec_body err"
    unfolding HU using sse_run_response(3) [OF assms(8), of ?U pf] Ue U by simp
  then show "res_body (handle pf a req) = res_body (handle pf ?a' req) @ spec_body err"
    using H' by simp
  show "answered err (handle pf a req)" if "\<not> list_ex is_emit es"
  proof -
    from sse_run_response(3) [OF assms(7), of ?S pf] that S(2) have "res_body ?T = []" by simp
    with bd st en show ?thesis by (simp add: answered_def)
  qed
qed

section \<open>OPTIONS and unknown paths\<close>

text \<open>
  C10. A request with method \<^verbatim>\<open>OPTIONS\<close> is answered with status 204 and an empty body, for
  every server (with or without CORS, whatever its routes) and every path: the trace is empty,
  so no route was looked up and no handler called, the request stream is untouched, and the
  response is the same for any other route table.
\<close>

theorem C10_options_short_circuit:
  assumes "req_method req = ''OPTIONS''"
  shows "res_statusCode (handle pf a req) = 204 \<and> res_body (handle pf a req) = [] \<and>
     res_ended (handle pf a req) \<and> trace (handle pf a req) = [] \<and>
     req_unread (handle pf a req) = chunks req \<and>
     handle pf (a\<lparr>routes := rs\<rparr>) req = handle pf a req"
  using assms by (simp add: handle_options res_end_def initial_def)

text \<open>An \<^verbatim>\<open>OPTIONS\<close> request with a body to the rpc route of the server with CORS.\<close>

theorem C10_options_short_circuit_witness:
  "req_method (http ''OPTIONS'' ''/rpc'' [''hello'']) = ''OPTIONS'' \<and>
   res_statusCode (handle node small_server (http ''OPTIONS'' ''/rpc'' [''hello''])) = 204 \<and>
   res_body (handle node small_server (http ''OPTIONS'' ''/rpc'' [''hello''])) = [] \<and>
   res_ended (handle node small_server (http ''OPTIONS'' ''/rpc'' [''hello''])) \<and>
   trace (handle node small_server (http ''OPTIONS'' ''/rpc'' [''hello''])) = [] \<and>
   req_unread (handle node small_server (http ''OPTIONS'' ''/rpc'' [''hello''])) = [''hello''] \<and>
   handle node (small_server\<lparr>routes := Map.empty\<rparr>) (http ''OPTIONS'' ''/rpc'' [''hello''])
     = handle node small_server (http ''OPTIONS'' ''/rpc'' [''hello''])"
  using C10_options_short_circuit [of "http ''OPTIONS'' ''/rpc'' [''hello'']" node small_server Map.empty]
  by (simp add: http_def)

text \<open>
  C3, as amended. For every path with no registered route and every request method other than
  \<^verbatim>\<open>OPTIONS\<close>, the response is 404 with body \<^verbatim>\<open>"NOT_FOUND"\<close>; the one lookup is all that
  happened, and the request stream is untouched.
\<close>

theorem C3_not_found:
  assumes "req_method req \<noteq> ''OPTIONS''" and "routes a (request_path req) = None"
  shows "res_statusCode (handle pf a req) = 404 \<and>
     res_body (handle pf a req) = quoted ''NOT_FOUND'' \<and>
     res_ended (handle pf a req) \<and>
     trace (handle pf a req) = [Lookup (request_path req)] \<and>
     req_unread (handle pf a req) = chunks req"
  using assms by (simp add: handle_def serve_not_found res_end_def logged_def initial_def)

text \<open>The test \<^verbatim>\<open>returns NOT_FOUND for unknown route\<close>.\<close>

theorem C3_not_found_witness:
  "req_method (http ''GET'' ''/does-not-exist'' []) \<noteq> ''OPTIONS'' \<and>
   routes test_server (request_path (http ''GET'' ''/does-not-exist'' [])) = None \<and>
   res_statusCode (handle node test_server (http ''GET'' ''/does-not-exist'' [])) = 404 \<and>
   res_body (handle node test_server (http ''GET'' ''/does-not-exist'' [])) = quoted ''NOT_FOUND''"
  using C3_not_found [of "http ''GET'' ''/does-not-exist'' []" test_server node]
  by (simp add: server_defs request_path_def)

text \<open>
  C3 as stated, for every method, fails at \<^verbatim>\<open>OPTIONS\<close>: the same unregistered path is answered
  204 with an empty body, because the \<^verbatim>\<open>OPTIONS\<close> test comes before the lookup.
\<close>

theorem C3_not_found_counterexample:
  "routes test_server (request_path (http ''OPTIONS'' ''/does-not-exist'' [])) = None \<and>
   res_statusCode (handle node test_server (http ''OPTIONS'' ''/does-not-exist'' [])) = 204 \<and>
   res_body (handle node test_server (http ''OPTIONS'' ''/does-not-exist'' [])) = []"
  by (simp add: handle_options res_end_def initial_def server_defs request_path_def)

section \<open>Body acquisition and the method check\<close>

text \<open>
  C5. For every request other than \<^verbatim>\<open>OPTIONS\<close> to a registered route that is not an upload
  (the routes whose body the dispatcher reads), if the chunks together are larger than the
  configured maximum, the response is 413 with body \<^verbatim>\<open>"PAYLOAD_TOO_LARGE"\<close>; the trace holds
  the lookup only, so no handler was called; and reading stopped at the chunk \<open>c\<close> with which
  the running size first passed the maximum: the chunks after it are still unread. Without a
  configured value the maximum is 1048576.
\<close>

theorem C5_payload_too_large:
  assumes "req_method req \<noteq> ''OPTIONS''" and "routes a (request_path req) = Some r"
    and "kind r \<noteq> KUpload"
    and "maxSize (api_options a) < sum_list (map length (chunks req))"
  shows "res_statusCode (handle pf a req) = 413 \<and>
     res_body (handle pf a req) = quoted ''PAYLOAD_TOO_LARGE'' \<and>
     res_ended (handle pf a req) \<and>
     trace (handle pf a req) = [Lookup (request_path req)] \<and>
     (\<exists>pre c post. chunks req = pre @ c # post \<and>
        sum_list (map length pre) \<le> maxSize (api_options a) \<and>
        maxSize (api_options a) < sum_list (map length pre) + length c \<and>
        req_unread (handle pf a req) = post) \<and>
     maxSize None = 1048576 \<and> maxSize (Some \<lparr>maxRequestSize = None, cors = co\<rparr>) = 1048576"
proof -
  let ?s1 = "logged (Lookup (request_path req)) (cors_headers (api_cors a) (initial req))"
  let ?mx = "maxSize (api_options a)"
  have u: "req_unread ?s1 = chunks req" by (simp add: logged_def initial_def)
  from readBody_exceeds [of ?mx 0 "chunks req" "toString_utf8 pf" "[]"] assms(4)
  obtain pre c post where
    split: "chunks req = pre @ c # post" "sum_list (map length pre) \<le> ?mx"
      "?mx < sum_list (map length pre) + length c"
    and rb: "readBody (toString_utf8 pf) ?mx (chunks req) [] 0 = (None, post)"
    by auto
  have "serve pf a req (initial req) =
      (None, res_end (Some (quoted ''PAYLOAD_TOO_LARGE'')) (?s1\<lparr>req_unread := post, res_statusCode := 413\<rparr>))"
    using serve_too_large [OF assms(1,2,3) refl] rb u by simp
  then have h: "handle pf a req =
      res_end (Some (quoted ''PAYLOAD_TOO_LARGE'')) (?s1\<lparr>req_unread := post, res_statusCode := 413\<rparr>)"
    by (simp add: handle_def)
  have "res_statusCode (handle pf a req) = 413" "res_body (handle pf a req) = quoted ''PAYLOAD_TOO_LARGE''"
    "res_ended (handle pf a req)" "trace (handle pf a req) = [Lookup (request_path req)]"
    "req_unread (handle pf a req) = post"
    unfolding h by (simp_all add: res_end_def logged_def initial_def)
  moreover have "maxSize None = 1048576" "maxSize (Some \<lparr>maxRequestSize = None, cors = co\<rparr>) = 1048576"
    by (simp_all add: maxSize_def)
  ultimately show ?thesis using split by blast
qed

text \<open>Seven bytes in three chunks against a limit of four: the third chunk is never read.\<close>

theorem C5_payload_too_large_witness:
  "req_method (http ''POST'' ''/rpc'' [''he'', ''llo'', ''!!'']) \<noteq> ''OPTIONS'' \<and>
   kind (the (routes small_server (request_path (http ''POST'' ''/rpc'' [''he'', ''llo'', ''!!''])))) \<noteq> KUpload \<and>
   maxSize (api_options small_server) < sum_list (map length (chunks (http ''POST'' ''/rpc'' [''he'', ''llo'', ''!!'']))) \<and>
   res_statusCode (handle node small_server (http ''POST'' ''/rpc'' [''he'', ''llo'', ''!!''])) = 413 \<and>
   res_body (handle node small_server (http ''POST'' ''/rpc'' [''he'', ''llo'', ''!!''])) = quoted ''PAYLOAD_TOO_LARGE'' \<and>
   trace (handle node small_server (http ''POST'' ''/rpc'' [''he'', ''llo'', ''!!''])) = [Lookup ''/rpc''] \<and>
   req_unread (handle node small_server (http ''POST'' ''/rpc'' [''he'', ''llo'', ''!!''])) = [''!!'']"
proof -
  have u: "req_unread (handle node small_server (http ''POST'' ''/rpc'' [''he'', ''llo'', ''!!''])) = [''!!'']"
    by (simp add: dispatch_defs response_defs server_defs utf8_decode_def)
  from C5_payload_too_large [of "http ''POST'' ''/rpc'' [''he'', ''llo'', ''!!'']" small_server
      "Rpc (\<lambda>c. Inr None)" node] u
  show ?thesis by (simp add: server_defs request_path_def maxSize_def)
qed

text \<open>
  C1, as amended. For every registered rpc or blob route, a request whose method is neither the
  one the kind requires nor \<^verbatim>\<open>OPTIONS\<close>, and whose body arrives whole and within the maximum, is
  answered 405 with body \<^verbatim>\<open>"METHOD_NOT_ALLOWED"\<close> without a handler call; the method is
  tested after the body loop, so the whole request body has been read from the stream by then.
\<close>

theorem C1_method_checked_after_body:
  assumes "routes a (request_path req) = Some r"
    and "kind r = KRpc \<and> req_method req \<noteq> ''POST'' \<or> kind r = KBlob \<and> req_method req \<noteq> ''GET''"
    and "req_method req \<noteq> ''OPTIONS''"
    and "sum_list (map length (chunks req)) \<le> maxSize (api_options a)"
    and "streamError req = None"
  shows "res_statusCode (handle pf a req) = 405 \<and>
     res_body (handle pf a req) = quoted ''METHOD_NOT_ALLOWED'' \<and>
     res_ended (handle pf a req) \<and>
     trace (handle pf a req) = [Lookup (request_path req)] \<and>
     req_unread (handle pf a req) = []"
proof (cases r)
  case (Rpc h)
  with assms(2) have m: "req_method req \<noteq> ''POST''" by simp
  show ?thesis
    unfolding handle_def serve_fits(1) [OF assms(3,1,4,5) refl refl Rpc]
    using m by (simp add: serve_rpc_def res_end_def logged_def initial_def)
next
  case (Blob k)
  with assms(2) have m: "req_method req \<noteq> ''GET''" by simp
  show ?thesis
    unfolding handle_def serve_fits(3) [OF assms(3,1,4,5) refl refl Blob]
    using m by (simp add: serve_blob_def res_end_def logged_def initial_def)
next
  case (Sse g)
  with assms(2) show ?thesis by simp
next
  case (Upload u)
  with assms(2) show ?thesis by simp
qed

text \<open>The test \<^verbatim>\<open>rejects wrong method\<close>, with a body added to the request.\<close>

theorem C1_method_checked_after_body_witness:
  "routes test_server (request_path (http ''GET'' ''/rpc'' [''hello''])) \<noteq> None \<and>
   kind (the (routes test_server (request_path (http ''GET'' ''/rpc'' [''hello''])))) = KRpc \<and>
   req_method (http ''GET'' ''/rpc'' [''hello'']) \<noteq> ''POST'' \<and>
   req_method (http ''GET'' ''/rpc'' [''hello'']) \<noteq> ''OPTIONS'' \<and>
   sum_list (map length (chunks (http ''GET'' ''/rpc'' [''hello'']))) \<le> maxSize (api_options test_server) \<and>
   streamError (http ''GET'' ''/rpc'' [''hello'']) = None \<and>
   res_statusCode (handle node test_server (http ''GET'' ''/rpc'' [''hello''])) = 405 \<and>
   res_body (handle node test_server (http ''GET'' ''/rpc'' [''hello''])) = quoted ''METHOD_NOT_ALLOWED'' \<and>
   trace (handle node test_server (http ''GET'' ''/rpc'' [''hello''])) = [Lookup ''/rpc''] \<and>
   req_unread (handle node test_server (http ''GET'' ''/rpc'' [''hello''])) = []"
  using C1_method_checked_after_body [of test_server "http ''GET'' ''/rpc'' [''hello'']"
      "Rpc (\<lambda>c. Inr (Some (JString ''from-context'')))" node]
  by (simp add: server_defs request_path_def maxSize_def)


text \<open>
  C1 as stated fails: a \<^verbatim>\<open>GET\<close> to the rpc route is answered 405 only after its body was
  consumed (nothing is left unread); with a limit of four bytes the same request is answered
  413, not 405; and \<^verbatim>\<open>OPTIONS\<close>, which is not \<^verbatim>\<open>POST\<close> either, is answered 204.
\<close>

theorem C1_method_checked_after_body_counterexample:
  "kind (the (routes test_server (request_path (http ''GET'' ''/rpc'' [''hello''])))) = KRpc \<and>
   req_method (http ''GET'' ''/rpc'' [''hello'']) \<noteq> ''POST'' \<and>
   chunks (http ''GET'' ''/rpc'' [''hello'']) = [''hello''] \<and>
   req_unread (handle node test_server (http ''GET'' ''/rpc'' [''hello''])) = [] \<and>
   res_statusCode (handle node small_server (http ''GET'' ''/rpc'' [''hello''])) = 413 \<and>
   res_statusCode (handle node test_server (http ''OPTIONS'' ''/rpc'' [''hello''])) = 204"
  by (simp add: dispatch_defs response_defs server_defs)

section \<open>Error mapping\<close>

text \<open>
  C4, as amended. Every failure thrown during a dispatch is mapped by \<^verbatim>\<open>handleError\<close>, provided
  that an \<^verbatim>\<open>HttpError\<close> carries a status between 100 and 999, as the error classes of the
  repository do: the status is the \<^verbatim>\<open>HttpError\<close>'s own, 400 for a validation failure, 500 for
  any other value, and what is written is the quoted code (the \<^verbatim>\<open>HttpError\<close>'s body, by its
  constructor; the validation failure's own code; \<^verbatim>\<open>"INTERNAL_ERROR"\<close>), whatever else the value
  carries. When the request stream fails, when an rpc, blob or upload handler throws, when
  \<^verbatim>\<open>JSON.stringify\<close> throws on an rpc result, or when an SSE handler throws before any emit,
  nothing has been written and the response is exactly that status and that body. When an SSE
  handler throws after emitting, the quoted code follows the frames the session has written:
  the body is that of the same session without the failure, then the quoted code.
\<close>

theorem C4_failures_mapped:
  assumes "mappable err"
    and "cx = \<lparr>req_body = Some (concat (map (toString_utf8 pf) (chunks req))), req_stream = [], app = ctx a\<rparr>"
  shows
    "(req_method req \<noteq> ''OPTIONS'' \<and> routes a (request_path req) = Some r \<and> kind r \<noteq> KUpload \<and>
      sum_list (map length (chunks req)) \<le> maxSize (api_options a) \<and> streamError req = Some err
        \<longrightarrow> answered err (handle pf a req)) \<and>
     (req_method req = ''POST'' \<and> routes a (request_path req) = Some (Rpc h) \<and>
      sum_list (map length (chunks req)) \<le> maxSize (api_options a) \<and> streamError req = None \<and>
      h cx = Inl err
        \<longrightarrow> answered err (handle pf a req)) \<and>
     (req_method req = ''POST'' \<and> routes a (request_path req) = Some (Rpc h) \<and>
      sum_list (map length (chunks req)) \<le> maxSize (api_options a) \<and> streamError req = None \<and>
      h cx = Inr (Some v) \<and> JSON_stringify pf v = Inl err
        \<longrightarrow> answered err (handle pf a req)) \<and>
     (req_method req = ''GET'' \<and> routes a (request_path req) = Some (Blob k) \<and>
      sum_list (map length (chunks req)) \<le> maxSize (api_options a) \<and> streamError req = None \<and>
      k cx = Inl err
        \<longrightarrow> answered err (handle pf a req)) \<and>
     (req_method req = ''POST'' \<and> routes a (request_path req) = Some (Upload u) \<and>
      u \<lparr>req_body = None, req_stream = chunks req, app = ctx a\<rparr> = Some err
        \<longrightarrow> answered err (handle pf a req)) \<and>
     (req_method req = ''GET'' \<and> routes a (request_path req) = Some (Sse g) \<and>
      sum_list (map length (chunks req)) \<le> maxSize (api_options a) \<and> streamError req = None \<and>
      g cx = es @ HandlerThrow err # later \<and> \<not> list_ex is_throw es \<and> \<not> list_ex is_throw later
        \<longrightarrow> res_statusCode (handle pf a req) = spec_status err \<and>
            res_ended (handle pf a req) \<and>
            res_body (handle pf a req)
              = res_body (handle pf (sse (request_path req) (\<lambda>c. es) a) req) @ spec_body err \<and>
            (\<not> list_ex is_emit es \<longrightarrow> answered err (handle pf a req))) \<and>
     spec_status (HttpError (HttpError_new sc c)) = sc \<and>
     spec_body (HttpError (HttpError_new sc c)) = quoted c"
proof -
  note ok = handle_catch [OF _ assms(1)]
  have 1: "answered err (handle pf a req)"
    if "req_method req \<noteq> ''OPTIONS''" "routes a (request_path req) = Some r" "kind r \<noteq> KUpload"
      "sum_list (map length (chunks req)) \<le> maxSize (api_options a)" "streamError req = Some err"
    using stream_failure [OF that, of pf] ok by blast
  have 2: "answered err (handle pf a req)"
    if "req_method req = ''POST''" "routes a (request_path req) = Some (Rpc h)"
      "sum_list (map length (chunks req)) \<le> maxSize (api_options a)" "streamError req = None"
      "h cx = Inl err"
    using rpc_handler_failure(1) [OF that(1-4) assms(2) that(5)] ok by blast
  have 3: "answered err (handle pf a req)"
    if "req_method req = ''POST''" "routes a (request_path req) = Some (Rpc h)"
      "sum_list (map length (chunks req)) \<le> maxSize (api_options a)" "streamError req = None"
      "h cx = Inr (Some v)" "JSON_stringify pf v = Inl err"
    using rpc_handler_failure(2) [OF that(1-4) assms(2) that(5,6)] ok by blast
  have 4: "answered err (handle pf a req)"
    if "req_method req = ''GET''" "routes a (request_path req) = Some (Blob k)"
      "sum_list (map length (chunks req)) \<le> maxSize (api_options a)" "streamError req = None"
      "k cx = Inl err"
    using blob_handler_failure [OF that(1-4) assms(2) that(5)] ok by blast
  have 5: "answered err (handle pf a req)"
    if "req_method req = ''POST''" "routes a (request_path req) = Some (Upload u)"
      "u \<lparr>req_body = None, req_stream = chunks req, app = ctx a\<rparr> = Some err"
    using upload_handler_failure [OF that, of pf] ok by blast
  have 6: "res_statusCode (handle pf a req) = spec_status err \<and>
            res_ended (handle pf a req) \<and>
            res_body (handle pf a req)
              = res_body (handle pf (sse (request_path req) (\<lambda>c. es) a) req) @ spec_body err \<and>
            (\<not> list_ex is_emit es \<longrightarrow> answered err (handle pf a req))"
    if "req_method req = ''GET''" "routes a (request_path req) = Some (Sse g)"
      "sum_list (map length (chunks req)) \<le> maxSize (api_options a)" "streamError req = None"
      "g cx = es @ HandlerThrow err # later" "\<not> list_ex is_throw es" "\<not> list_ex is_throw later"
    using sse_handler_failure [OF that(1-4) assms(2) that(5-7) assms(1)] by blast
  have 7: "spec_status (HttpError (HttpError_new sc c)) = sc"
    "spec_body (HttpError (HttpError_new sc c)) = quoted c"
    by (simp_all add: HttpError_new_def)
  from 1 2 3 4 5 6 7 show ?thesis by blast
qed

text \<open>
  One failing request of each kind: the three families of thrown values from rpc handlers, a
  result that cannot be serialised, a blob and an upload handler, a request stream that fails,
  and an SSE handler that throws before and after its first emit.
\<close>

theorem C4_failures_mapped_witness:
  "mappable (HttpError ForbiddenError) \<and> mappable (ValidationError ''INVALID_EMAIL'') \<and>
   mappable (OtherError ''TypeError: x is undefined at handler.ts:3'') \<and>
   routes failing_server ''/forbidden'' = Some (Rpc (\<lambda>c. Inl (HttpError ForbiddenError))) \<and>
   res_statusCode (handle node failing_server (http ''POST'' ''/forbidden'' [])) = 403 \<and>
   res_body (handle node failing_server (http ''POST'' ''/forbidden'' [])) = quoted ''FORBIDDEN'' \<and>
   res_ended (handle node failing_server (http ''POST'' ''/forbidden'' [])) \<and>
   res_statusCode (handle node failing_server (http ''POST'' ''/invalid'' [])) = 400 \<and>
   res_body (handle node failing_server (http ''POST'' ''/invalid'' [])) = quoted ''INVALID_EMAIL'' \<and>
   res_statusCode (handle node failing_server (http ''POST'' ''/crash'' [])) = 500 \<and>
   res_body (handle node failing_server (http ''POST'' ''/crash'' [])) = quoted ''INTERNAL_ERROR'' \<and>
   res_statusCode (handle node failing_server (http ''POST'' ''/circular'' [])) = 500 \<and>
   res_body (handle node failing_server (http ''POST'' ''/circular'' [])) = quoted ''INTERNAL_ERROR'' \<and>
   res_statusCode (handle node failing_server (http ''GET'' ''/blob-fail'' [])) = 404 \<and>
   res_body (handle node failing_server (http ''GET'' ''/blob-fail'' [])) = quoted ''NOT_FOUND'' \<and>
   res_statusCode (handle node failing_server (http ''POST'' ''/upload-fail'' [''data''])) = 401 \<and>
   res_body (handle node failing_server (http ''POST'' ''/upload-fail'' [''data''])) = quoted ''UNAUTHORIZED'' \<and>
   res_statusCode (handle node failing_server
      ((http ''POST'' ''/forbidden'' [''ab''])\<lparr>streamError := Some (OtherError ''aborted'')\<rparr>)) = 500 \<and>
   res_body (handle node failing_server
      ((http ''POST'' ''/forbidden'' [''ab''])\<lparr>streamError := Some (OtherError ''aborted'')\<rparr>))
     = quoted ''INTERNAL_ERROR'' \<and>
   res_statusCode (handle node failing_server (http ''GET'' ''/sse-early'' [])) = 403 \<and>
   res_body (handle node failing_server (http ''GET'' ''/sse-early'' [])) = quoted ''FORBIDDEN'' \<and>
   res_ended (handle node failing_server (http ''GET'' ''/sse-early'' [])) \<and>
   res_statusCode (handle node failing_server (http ''GET'' ''/sse-late'' [])) = 500 \<and>
   res_body (handle node failing_server (http ''GET'' ''/sse-late'' []))
     = res_body (handle node
         (sse ''/sse-late'' (\<lambda>c. [OnCleanup (Callback 1 None), Emit ''tick'' (JString ''0'')]) failing_server)
         (http ''GET'' ''/sse-late'' [])) @ quoted ''INTERNAL_ERROR''"
proof -
  note T = C4_failures_mapped [where pf = node and a = failing_server, OF _ refl]
  note ev = server_defs request_path_def maxSize_def answered_def ForbiddenError_def
    NotFoundError_def UnauthorizedError_def HttpError_new_def
  have m: "mappable (HttpError ForbiddenError)" "mappable (ValidationError ''INVALID_EMAIL'')"
    "mappable (OtherError ''TypeError: x is undefined at handler.ts:3'')"
    "mappable (HttpError NotFoundError)" "mappable (HttpError UnauthorizedError)"
    by (simp_all add: ev)
  have r: "routes failing_server ''/forbidden'' = Some (Rpc (\<lambda>c. Inl (HttpError ForbiddenError)))"
    by (simp add: ev)
  have w1: "answered (OtherError ''aborted'') (handle node failing_server
      ((http ''POST'' ''/forbidden'' [''ab''])\<lparr>streamError := Some (OtherError ''aborted'')\<rparr>))"
    using T [where err = "OtherError ''aborted''"
        and req = "(http ''POST'' ''/forbidden'' [''ab''])\<lparr>streamError := Some (OtherError ''aborted'')\<rparr>"
        and r = "Rpc (\<lambda>c. Inl (HttpError ForbiddenError))"]
    by (simp add: ev)
  have w2: "answered (HttpError ForbiddenError) (handle node failing_server (http ''POST'' ''/forbidden'' []))"
    using T [where err = "HttpError ForbiddenError" and req = "http ''POST'' ''/forbidden'' []"
        and h = "\<lambda>c. Inl (HttpError ForbiddenError)"]
    by (simp add: ev)
  have w2a: "answered (ValidationError ''INVALID_EMAIL'') (handle node failing_server (http ''POST'' ''/invalid'' []))"
    using T [where err = "ValidationError ''INVALID_EMAIL''" and req = "http ''POST'' ''/invalid'' []"
        and h = "\<lambda>c. Inl (ValidationError ''INVALID_EMAIL'')"]
    by (simp add: ev)
  have w2b: "answered (OtherError ''TypeError: x is undefined at handler.ts:3'')
      (handle node failing_server (http ''POST'' ''/crash'' []))"
    using T [where err = "OtherError ''TypeError: x is undefined at handler.ts:3''"
        and req = "http ''POST'' ''/crash'' []"
        and h = "\<lambda>c. Inl (OtherError ''TypeError: x is undefined at handler.ts:3'')"]
    by (simp add: ev)
  have w3: "answered (OtherError ''TypeError: Converting circular structure to JSON'')
      (handle node failing_server (http ''POST'' ''/circular'' []))"
    using T [where err = "OtherError ''TypeError: Converting circular structure to JSON''"
        and req = "http ''POST'' ''/circular'' []" and h = "\<lambda>c. Inr (Some JCircular)" and v = JCircular]
    by (simp add: ev)
  have w4: "answered (HttpError NotFoundError) (handle node failing_server (http ''GET'' ''/blob-fail'' []))"
    using T [where err = "HttpError NotFoundError" and req = "http ''GET'' ''/blob-fail'' []"
        and k = "\<lambda>c. Inl (HttpError NotFoundError)"]
    by (simp add: ev)
  have w5: "answered (HttpError UnauthorizedError)
      (handle node failing_server (http ''POST'' ''/upload-fail'' [''data'']))"
    using T [where err = "HttpError UnauthorizedError" and req = "http ''POST'' ''/upload-fail'' [''data'']"
        and u = "\<lambda>c. Some (HttpError UnauthorizedError)"]
    by (simp add: ev)
  have w6: "answered (HttpError ForbiddenError) (handle node failing_server (http ''GET'' ''/sse-early'' []))"
    using T [where err = "HttpError ForbiddenError" and req = "http ''GET'' ''/sse-early'' []"
        and g = "\<lambda>c. [OnCleanup (Callback 1 None), HandlerThrow (HttpError ForbiddenError)]"
        and es = "[OnCleanup (Callback 1 None)]" and later = "[]"]
    by (simp add: ev dispatch_defs response_defs onCleanup_def utf8_decode_def)
  have w7: "res_statusCode (handle node failing_server (http ''GET'' ''/sse-late'' [])) = 500 \<and>
     res_body (handle node failing_server (http ''GET'' ''/sse-late'' []))
     = res_body (handle node
         (sse ''/sse-late'' (\<lambda>c. [OnCleanup (Callback 1 None), Emit ''tick'' (JString ''0'')]) failing_server)
         (http ''GET'' ''/sse-late'' [])) @ quoted ''INTERNAL_ERROR''"
    using T [where err = "OtherError ''secret detail''" and req = "http ''GET'' ''/sse-late'' []"
        and g = "\<lambda>c. [OnCleanup (Callback 1 None), Emit ''tick'' (JString ''0''),
               HandlerThrow (OtherError ''secret detail'')]"
        and es = "[OnCleanup (Callback 1 None), Emit ''tick'' (JString ''0'')]" and later = "[]"]
    by (simp add: ev)
  from m r w1 w2 w2a w2b w3 w4 w5 w6 w7 show ?thesis
    by (simp add: ev)
qed

text \<open>
  C4 as stated fails where the body is said to be exactly the quoted code in all cases: an SSE
  handler that throws after one emit leaves the frame followed by \<^verbatim>\<open>"INTERNAL_ERROR"\<close>. It also
  fails to be total: an \<^verbatim>\<open>HttpError\<close> with status 1000 is not answered at all, the response is
  left empty and open.
\<close>

theorem C4_failures_mapped_counterexample:
  "res_statusCode (handle node failing_server (http ''GET'' ''/sse-late'' [])) = 500 \<and>
   res_body (handle node failing_server (http ''GET'' ''/sse-late'' []))
     = ''event: tick'' @ [CHR 0x0A] @ ''data: '' @ quoted ''0'' @ [CHR 0x0A, CHR 0x0A]
       @ quoted ''INTERNAL_ERROR'' \<and>
   res_body (handle node failing_server (http ''GET'' ''/sse-late'' [])) \<noteq> quoted ''INTERNAL_ERROR'' \<and>
   statusCode (HttpError_new 1000 ''TOO_BIG'') = 1000 \<and>
   res_body (handle node failing_server (http ''POST'' ''/bad-status'' [])) = [] \<and>
   \<not> res_ended (handle node failing_server (http ''POST'' ''/bad-status'' []))"
  by (simp add: dispatch_defs response_defs server_defs emit_def onCleanup_def utf8_decode_def
      end_throws_def HttpError_new_def quoted_def)

section \<open>The rpc result\<close>

text \<open>
  C8. For a \<^verbatim>\<open>POST\<close> to an rpc route whose body was read, when the handler returns: if the
  result is \<^verbatim>\<open>undefined\<close> the response is ended with an empty body and no \<^verbatim>\<open>content-type\<close>
  header; if it is a value that \<^verbatim>\<open>JSON.stringify\<close> turns into the text \<open>j\<close>, the body is \<open>j\<close>
  and \<^verbatim>\<open>content-type\<close> is \<^verbatim>\<open>application/json\<close>. The status stays 200.
\<close>

theorem C8_rpc_result:
  assumes "req_method req = ''POST''" and "routes a (request_path req) = Some (Rpc h)"
    and "sum_list (map length (chunks req)) \<le> maxSize (api_options a)"
    and "streamError req = None"
    and "cx = \<lparr>req_body = Some (concat (map (toString_utf8 pf) (chunks req))), req_stream = [], app = ctx a\<rparr>"
  shows "(h cx = Inr None \<longrightarrow>
            res_body (handle pf a req) = [] \<and>
            getHeader ''content-type'' (handle pf a req) = None \<and>
            res_ended (handle pf a req) \<and> res_statusCode (handle pf a req) = 200) \<and>
         (h cx = Inr (Some v) \<and> JSON_stringify pf v = Inr (Some j) \<longrightarrow>
            res_body (handle pf a req) = j \<and>
            getHeader ''content-type'' (handle pf a req) = Some ''application/json'' \<and>
            res_ended (handle pf a req) \<and> res_statusCode (handle pf a req) = 200)"
proof -
  have m: "req_method req \<noteq> ''OPTIONS''" using assms(1) by simp
  note sv = serve_fits(1) [OF m assms(2,3,4) refl assms(5) refl]
  show ?thesis
    unfolding handle_def sv using assms(1)
    by (simp add: serve_rpc_def res_end_def logged_def initial_def getHeader_def setHeader_def
        update_conv' cors_headers_def split: option.splits)
qed

text \<open>The rpc handler that returns nothing, and the one that returns a string.\<close>

theorem C8_rpc_result_witness:
  "req_method (http ''POST'' ''/rpc'' [''{}'']) = ''POST'' \<and>
   routes small_server (request_path (http ''POST'' ''/rpc'' [''{}''])) = Some (Rpc (\<lambda>c. Inr None)) \<and>
   routes test_server (request_path (http ''POST'' ''/rpc'' [''{}'']))
     = Some (Rpc (\<lambda>c. Inr (Some (JString ''from-context'')))) \<and>
   sum_list (map length (chunks (http ''POST'' ''/rpc'' [''{}'']))) \<le> maxSize (api_options small_server) \<and>
   sum_list (map length (chunks (http ''POST'' ''/rpc'' [''{}'']))) \<le> maxSize (api_options test_server) \<and>
   streamError (http ''POST'' ''/rpc'' [''{}'']) = None \<and>
   JSON_stringify node (JString ''from-context'') = Inr (Some (quoted ''from-context'')) \<and>
   res_body (handle node small_server (http ''POST'' ''/rpc'' [''{}''])) = [] \<and>
   getHeader ''content-type'' (handle node small_server (http ''POST'' ''/rpc'' [''{}''])) = None \<and>
   res_body (handle node test_server (http ''POST'' ''/rpc'' [''{}''])) = quoted ''from-context'' \<and>
   getHeader ''content-type'' (handle node test_server (http ''POST'' ''/rpc'' [''{}''])) = Some ''application/json''"
  using C8_rpc_result [where req = "http ''POST'' ''/rpc'' [''{}'']" and a = small_server
        and h = "\<lambda>c. Inr None" and pf = node, OF _ _ _ _ refl]
    C8_rpc_result [where req = "http ''POST'' ''/rpc'' [''{}'']" and a = test_server
        and h = "\<lambda>c. Inr (Some (JString ''from-context''))" and pf = node
        and v = "JString ''from-context''" and j = "quoted ''from-context''", OF _ _ _ _ refl]
  by (simp add: server_defs request_path_def maxSize_def)

section \<open>The SSE session: cleanup and emit\<close>

text \<open>
  C6. In every SSE session, at the first \<^verbatim>\<open>close\<close> event (of the request or of the response)
  the cleanup functions registered until then are called in registration order, once per
  registration, whether or not one of them throws; whatever follows (the other \<^verbatim>\<open>close\<close> event, a
  duplicate, any other event) calls none of them again. With two registrations the calls are
  those two, in order.
\<close>

theorem C6_cleanups_once_in_order:
  assumes "req_method req = ''GET''" and "routes a (request_path req) = Some (Sse g)"
    and "sum_list (map length (chunks req)) \<le> maxSize (api_options a)"
    and "streamError req = None"
    and "cx = \<lparr>req_body = Some (concat (map (toString_utf8 pf) (chunks req))), req_stream = [], app = ctx a\<rparr>"
    and "g cx = es @ c # later" and "\<not> list_ex is_close es" and "is_close c"
  shows "ran (handle pf a req) = registered es \<and> closed (handle pf a req)"
proof -
  from handle_sse [OF assms(1-5)] obtain s where
    s: "handle pf a req = sse_run pf (g cx) s" "\<not> closed s" "cleanups s = []" "ran s = []"
    by blast
  from sse_run_first_close [OF s(2) assms(7,8), of pf later] s assms(6)
  show ?thesis by simp
qed

text \<open>Two cleanups, the first throwing; the response closes, then the request.\<close>

theorem C6_cleanups_once_in_order_witness:
  "req_method (http ''GET'' ''/stream'' []) = ''GET'' \<and>
   \<not> list_ex is_close two_cleanups \<and> is_close (ResClose :: js_value sse_event) \<and>
   registered two_cleanups = [Callback 1 (Some (OtherError ''boom'')), Callback 2 None] \<and>
   ran (handle node small_server (http ''GET'' ''/stream'' []))
     = [Callback 1 (Some (OtherError ''boom'')), Callback 2 None] \<and>
   closed (handle node small_server (http ''GET'' ''/stream'' []))"
  using C6_cleanups_once_in_order [where req = "http ''GET'' ''/stream'' []" and a = small_server
      and g = "\<lambda>c. two_cleanups @ [ResClose, ReqClose, Emit ''tick'' (JString ''1'')]" and pf = node
      and es = two_cleanups and c = ResClose and later = "[ReqClose, Emit ''tick'' (JString ''1'')]",
      OF _ _ _ _ refl]
  by (simp add: server_defs request_path_def maxSize_def)

text \<open>
  C2, as amended. In every SSE session the end is triggered by the connection reporting closed,
  in either direction, whichever comes first, and by nothing else: as long as the timeline has
  no \<^verbatim>\<open>close\<close> event the session stays open and no cleanup runs, even after the handler has
  returned; at the first \<^verbatim>\<open>close\<close> event every cleanup registered so far is run.
\<close>

theorem C2_session_end:
  assumes "req_method req = ''GET''" and "routes a (request_path req) = Some (Sse g)"
    and "sum_list (map length (chunks req)) \<le> maxSize (api_options a)"
    and "streamError req = None"
    and "cx = \<lparr>req_body = Some (concat (map (toString_utf8 pf) (chunks req))), req_stream = [], app = ctx a\<rparr>"
  shows "(\<not> list_ex is_close (g cx) \<longrightarrow> \<not> closed (handle pf a req) \<and> ran (handle pf a req) = []) \<and>
         (g cx = es @ [c] \<and> \<not> list_ex is_close es \<and> (c = ReqClose \<or> c = ResClose) \<longrightarrow>
            closed (handle pf a req) \<and> ran (handle pf a req) = registered es)"
proof -
  from handle_sse [OF assms(1-5)] obtain s where
    s: "handle pf a req = sse_run pf (g cx) s" "\<not> closed s" "cleanups s = []" "ran s = []"
    by blast
  have 1: "\<not> list_ex is_close (g cx) \<Longrightarrow> \<not> closed (handle pf a req) \<and> ran (handle pf a req) = []"
    using sse_run_quiet [of "g cx" pf s] s by simp
  have 2: "closed (handle pf a req) \<and> ran (handle pf a req) = registered es"
    if h: "g cx = es @ [c]" "\<not> list_ex is_close es" "c = ReqClose \<or> c = ResClose"
  proof -
    from h(3) have "is_close c" by auto
    from sse_run_first_close [OF s(2) h(2) this, of pf "[]"] s h(1) show ?thesis by simp
  qed
  from 1 2 show ?thesis by blast
qed

text \<open>The handler has returned on both routes; only the one whose request closes is cleaned up.\<close>

theorem C2_session_end_witness:
  "req_method (http ''GET'' ''/events'' []) = ''GET'' \<and>
   \<not> list_ex is_close two_cleanups \<and> HandlerReturn \<in> set two_cleanups \<and>
   \<not> closed (handle node small_server (http ''GET'' ''/events'' [])) \<and>
   ran (handle node small_server (http ''GET'' ''/events'' [])) = [] \<and>
   closed (handle node small_server (http ''GET'' ''/closing'' [])) \<and>
   ran (handle node small_server (http ''GET'' ''/closing'' [])) = registered two_cleanups"
  using C2_session_end [where req = "http ''GET'' ''/events'' []" and a = small_server
      and g = "\<lambda>c. two_cleanups" and pf = node, OF _ _ _ _ refl]
    C2_session_end [where req = "http ''GET'' ''/closing'' []" and a = small_server
      and g = "\<lambda>c. two_cleanups @ [ReqClose]" and pf = node and es = two_cleanups and c = ReqClose,
      OF _ _ _ _ refl]
  by (simp add: server_defs request_path_def maxSize_def)

text \<open>
  C2 as stated fails for the handler's return: the handler registers two cleanups and
  returns, and with the connection still open neither cleanup has run, \<^verbatim>\<open>closed\<close> is false
  and the response is not ended.
\<close>

theorem C2_session_end_counterexample:
  "routes small_server ''/events'' \<noteq> None \<and>
   HandlerReturn \<in> set two_cleanups \<and>
   cleanups (handle node small_server (http ''GET'' ''/events'' []))
     = [Callback 1 (Some (OtherError ''boom'')), Callback 2 None] \<and>
   ran (handle node small_server (http ''GET'' ''/events'' [])) = [] \<and>
   \<not> closed (handle node small_server (http ''GET'' ''/events'' [])) \<and>
   \<not> res_ended (handle node small_server (http ''GET'' ''/events'' []))"
  by (simp add: dispatch_defs response_defs server_defs emit_def onCleanup_def utf8_decode_def)

text \<open>
  C9. A call to \<^verbatim>\<open>emit\<close> on a closed session changes nothing and throws nothing. On an open
  session whose response is not ended, with data that \<^verbatim>\<open>JSON.stringify\<close> turns into the text
  \<open>j\<close>, it writes the line \<^verbatim>\<open>event: \<close>name and the line \<^verbatim>\<open>data: \<close>\<open>j\<close> followed by an empty line,
  and nothing else.
\<close>

theorem C9_emit:
  "(closed s \<longrightarrow> emit pf ev d s = (None, s)) \<and>
   (\<not> closed s \<and> \<not> res_ended s \<and> JSON_stringify pf d = Inr (Some j) \<longrightarrow>
      emit pf ev d s =
        (None, s\<lparr>res_body := res_body s @ ''event: '' @ ev @ [CHR 0x0A] @ ''data: '' @ j @ [CHR 0x0A, CHR 0x0A]\<rparr>))"
  by (simp add: emit_def res_write_def)

text \<open>The same call on a closed and on a fresh session.\<close>

theorem C9_emit_witness:
  "closed ((initial (http ''GET'' ''/events'' []))\<lparr>closed := True\<rparr>) \<and>
   emit node ''tick'' (JString ''0'') ((initial (http ''GET'' ''/events'' []))\<lparr>closed := True\<rparr>)
     = (None, (initial (http ''GET'' ''/events'' []))\<lparr>closed := True\<rparr>) \<and>
   \<not> closed (initial (http ''GET'' ''/events'' [])) \<and>
   \<not> res_ended (initial (http ''GET'' ''/events'' [])) \<and>
   JSON_stringify node (JString ''0'') = Inr (Some (quoted ''0'')) \<and>
   res_body (snd (emit node ''tick'' (JString ''0'') (initial (http ''GET'' ''/events'' []))))
     = ''event: tick'' @ [CHR 0x0A] @ ''data: '' @ quoted ''0'' @ [CHR 0x0A, CHR 0x0A]"
  using C9_emit [of "(initial (http ''GET'' ''/events'' []))\<lparr>closed := True\<rparr>" node "''tick''" "JString ''0''"]
    C9_emit [of "initial (http ''GET'' ''/events'' [])" node "''tick''" "JString ''0''" "quoted ''0''"]
  by (simp add: initial_def node_def)

section \<open>The body the handler sees\<close>

text \<open>
  C7. The loop decodes each chunk by itself and concatenates the texts (\<open>rpc_handler_body\<close>),
  so what the handler sees depends on where the transport cuts the body. The two bytes of
  U+00E9 sent as one chunk are seen as that character; sent as two chunks of one byte they are
  seen as two replacement characters, while the claim promises the decoding of the bytes sent.
\<close>

theorem C7_body_decoded_per_chunk:
  "toString_utf8 node (concat [[CHR 0xC3], [CHR 0xA9]]) = [0xE9] \<and>
   trace (handle node test_server (http ''POST'' ''/rpc'' [[CHR 0xC3, CHR 0xA9]]))
     = [Lookup ''/rpc'', Invoke KRpc (Some [0xE9])] \<and>
   trace (handle node test_server (http ''POST'' ''/rpc'' [[CHR 0xC3], [CHR 0xA9]]))
     = [Lookup ''/rpc'', Invoke KRpc (Some [0xFFFD, 0xFFFD])]"
  by (simp add: rpc_handler_body server_defs request_path_def maxSize_def utf8_decode_def
      utf8_step_def utf8_lead_def utf8_idle_def)

end
